(* ===== verification/Prelude.thy ===== *)
theory Prelude
  imports Complex_Main
begin

text \<open>
  Shared vocabulary of the libcutter simulator development: the result type of the
  device methods, the C++ conversion of a \<open>double\<close> to an \<open>int\<close> that every
  OpenCV call of \<^verbatim>\<open>src/lib/device_cv_sim.cpp\<close> performs on its coordinates and on the
  tool width, and the generic lemmas on these conversions and on left folds that the
  component theories share.
\<close>

named_theorems device_defs
  "definitions of the device operations, unfolded to evaluate them at concrete inputs"

text \<open>
  Every public method of \<^verbatim>\<open>Device::CV_sim\<close> returns a \<^verbatim>\<open>bool\<close> and mutates the
  object: the model returns the flag with the new object.
\<close>

type_synonym 's result = "bool \<times> 's"

subsection \<open>C++ conversion of a floating value to \<open>int\<close>\<close>

text \<open>
  A \<^verbatim>\<open>double\<close> passed where an \<^verbatim>\<open>int\<close> is expected (\<^verbatim>\<open>cvPoint(x, y)\<close>, the cast
  \<^verbatim>\<open>(int)tool_width\<close>) is truncated towards zero ([conv.fpint]); the conversion is
  undefined when the truncated value does not fit in 32 bits, which
  \<open>c_int_representable\<close> states.
\<close>

definition trunc_real :: "real \<Rightarrow> int" where
  "trunc_real r = (if 0 \<le> r then \<lfloor>r\<rfloor> else \<lceil>r\<rceil>)"

definition c_int_representable :: "real \<Rightarrow> bool" where
  "c_int_representable r \<longleftrightarrow> - (2 ^ 31) - 1 < r \<and> r < 2 ^ 31"

lemma trunc_real_nonneg [simp]: "0 \<le> r \<Longrightarrow> trunc_real r = \<lfloor>r\<rfloor>"
  by (simp add: trunc_real_def)

lemma trunc_real_neg: "r < 0 \<Longrightarrow> trunc_real r = \<lceil>r\<rceil>"
  by (simp add: trunc_real_def)

lemma trunc_real_of_int [simp]: "trunc_real (of_int k) = k"
  by (simp add: trunc_real_def)

lemma trunc_real_ge_one: "1 \<le> r \<Longrightarrow> 1 \<le> trunc_real r"
  by simp

lemma trunc_real_max_one: "trunc_real (max 1 r) = max 1 \<lfloor>r\<rfloor>"
proof (cases "r \<le> 1")
  case True
  then have "\<lfloor>r\<rfloor> \<le> 1" by linarith
  with True show ?thesis by (simp add: max_def)
next
  case False
  then have "1 \<le> \<lfloor>r\<rfloor>" by simp
  with False show ?thesis by (simp add: max_def)
qed

lemma trunc_real_abs_le: "\<bar>of_int (trunc_real r)\<bar> \<le> \<bar>r\<bar>"
proof (cases "0 \<le> r")
  case True
  then have "0 \<le> \<lfloor>r\<rfloor>" and "of_int \<lfloor>r\<rfloor> \<le> r" by simp_all
  with True show ?thesis by simp
next
  case False
  then have "\<lceil>r\<rceil> \<le> 0" and "r \<le> of_int \<lceil>r\<rceil>" by simp_all
  with False show ?thesis by (simp add: trunc_real_def)
qed

lemma trunc_real_mono: "r \<le> s \<Longrightarrow> trunc_real r \<le> trunc_real s"
  unfolding trunc_real_def
  by (cases "0 \<le> r"; cases "0 \<le> s") (auto intro: floor_mono ceiling_mono order_trans [of _ 0])

lemma trunc_real_representable:
  "c_int_representable r \<Longrightarrow> - (2 ^ 31) \<le> trunc_real r \<and> trunc_real r < 2 ^ 31"
  unfolding c_int_representable_def trunc_real_def
  by (cases "0 \<le> r") (simp_all add: floor_less_iff le_floor_iff ceiling_less_iff le_ceiling_iff)


subsection \<open>Convex combinations\<close>

text \<open>A convex combination of four reals lies between their least and greatest.\<close>

lemma convex4_bounds:
  fixes a b c d u v w z :: real
  assumes "0 \<le> a" "0 \<le> b" "0 \<le> c" "0 \<le> d" and sum: "a + b + c + d = 1"
  shows "min (min u v) (min w z) \<le> a * u + b * v + c * w + d * z"
    and "a * u + b * v + c * w + d * z \<le> max (max u v) (max w z)"
proof -
  let ?m = "min (min u v) (min w z)" and ?M = "max (max u v) (max w z)"
  have "a * ?m \<le> a * u" "b * ?m \<le> b * v" "c * ?m \<le> c * w" "d * ?m \<le> d * z"
    using assms(1-4) by (simp_all add: mult_left_mono)
  moreover have "a * ?m + b * ?m + c * ?m + d * ?m = ?m"
    using sum by (metis distrib_right mult_1)
  ultimately show "?m \<le> a * u + b * v + c * w + d * z" by linarith
  have "a * u \<le> a * ?M" "b * v \<le> b * ?M" "c * w \<le> c * ?M" "d * z \<le> d * ?M"
    using assms(1-4) by (simp_all add: mult_left_mono)
  moreover have "a * ?M + b * ?M + c * ?M + d * ?M = ?M"
    using sum by (metis distrib_right mult_1)
  ultimately show "a * u + b * v + c * w + d * z \<le> ?M" by linarith
qed

end
