(* ===== verification/Geometry.thy ===== *)
theory Geometry
  imports Prelude
begin

text \<open>
  Points and the fixed configuration of the simulator: the \<^verbatim>\<open>xy\<close> point type (two
  \<^verbatim>\<open>double\<close>s, modelled as reals), the resolution and size macros at the top of
  \<^verbatim>\<open>src/lib/device_cv_sim.cpp\<close>, the logical-to-raster transform
  \<^verbatim>\<open>CV_sim::convert_to_internal\<close> and the size query \<^verbatim>\<open>CV_sim::get_dimensions\<close>.
\<close>

record xy =
  x :: real
  y :: real

definition DPI_X :: int where
  "DPI_X = 100"

definition DPI_Y :: int where
  "DPI_Y = 100"

definition DEFAULT_SIZE_X :: int where
  "DEFAULT_SIZE_X = 6"

definition DEFAULT_SIZE_Y :: int where
  "DEFAULT_SIZE_Y = 6"

definition convert_to_internal :: "xy \<Rightarrow> xy" where
  "convert_to_internal input = \<lparr>x = x input * of_int DPI_X, y = y input * of_int DPI_Y\<rparr>"

definition get_dimensions :: xy where
  "get_dimensions = \<lparr>x = of_int DEFAULT_SIZE_X, y = of_int DEFAULT_SIZE_Y\<rparr>"

declare convert_to_internal_def [device_defs] get_dimensions_def [device_defs]

lemmas config_defs = DPI_X_def DPI_Y_def DEFAULT_SIZE_X_def DEFAULT_SIZE_Y_def

subsection \<open>The transform\<close>

lemma convert_x [simp]: "x (convert_to_internal p) = 100 * x p"
  by (simp add: convert_to_internal_def DPI_X_def)

lemma convert_y [simp]: "y (convert_to_internal p) = 100 * y p"
  by (simp add: convert_to_internal_def DPI_Y_def)

lemma convert_to_internal_eq_iff [simp]:
  "convert_to_internal p = convert_to_internal q \<longleftrightarrow> p = q"
  by (auto simp: convert_to_internal_def DPI_X_def DPI_Y_def intro: xy.equality)

text \<open>The tool-width scale of \<^verbatim>\<open>set_tool_width\<close>, the geometric mean of the two
  resolutions, is exactly 100.\<close>

lemma sqrt_DPI: "sqrt (of_int (DPI_X * DPI_Y)) = 100"
proof -
  have "(of_int (DPI_X * DPI_Y) :: real) = 100\<^sup>2" by (simp add: DPI_X_def DPI_Y_def)
  then show ?thesis by simp
qed

subsection \<open>Properties of the transform\<close>


end
