(* ===== verification/Canvas.thy ===== *)
theory Canvas
  imports Geometry
begin

text \<open>
  The part of the OpenCV 1.x C API that \<^verbatim>\<open>src/lib/device_cv_sim.cpp\<close> calls
  (\<^verbatim>\<open>cvCreateImage\<close>, \<^verbatim>\<open>memset\<close> of the pixel buffer, \<^verbatim>\<open>cvLine\<close>, \<^verbatim>\<open>cvReleaseImage\<close>,
  \<^verbatim>\<open>cvCircle\<close>, \<^verbatim>\<open>cvCloneImage\<close>, \<^verbatim>\<open>cvSaveImage\<close>, \<^verbatim>\<open>cvPoint\<close>,
  \<^verbatim>\<open>cvScalar\<close>).  The library is not part of the repository; it is modelled from its
  documented interface.  An \<^verbatim>\<open>IplImage\<close> is a record of its header fields and of its
  pixel content, kept as the list of drawing primitives painted since the buffer was
  zero-filled: the rasterisation of one primitive is the library's business and is
  left abstract, as the painter \<open>paint\<close> of \<open>render\<close>, over which the client
  lemmas are stated.  The file system that \<^verbatim>\<open>cvSaveImage\<close> writes is a record of
  the files and of the names that can be written.
\<close>

datatype cv_scalar = CvScalar real real real real

definition cvScalar :: "real \<Rightarrow> real \<Rightarrow> real \<Rightarrow> cv_scalar" where
  "cvScalar v0 v1 v2 = CvScalar v0 v1 v2 0"

type_synonym cv_point = "int \<times> int"

text \<open>
  \<^verbatim>\<open>cvPoint(int x, int y)\<close> called with \<^verbatim>\<open>double\<close> arguments: each is converted
  by truncation towards zero.
\<close>

definition cvPoint :: "real \<Rightarrow> real \<Rightarrow> cv_point" where
  "cvPoint a b = (trunc_real a, trunc_real b)"

definition IPL_DEPTH_8U :: nat where
  "IPL_DEPTH_8U = 8"

definition CV_AA :: int where
  "CV_AA = 16"

definition CV_LINE_8 :: int where
  "CV_LINE_8 = 8"

text \<open>A drawing primitive with its arguments: end points or centre and radius,
  colour, thickness, line type and number of fractional bits of the coordinates.\<close>

datatype draw_op =
    Line cv_point cv_point cv_scalar int int int
  | Circle cv_point int cv_scalar int int int

record iplimage =
  width :: int
  height :: int
  depth :: nat
  nChannels :: nat
  zeroed :: bool
  strokes :: "draw_op list"

definition cvSize :: "int \<Rightarrow> int \<Rightarrow> int \<times> int" where
  "cvSize w h = (w, h)"

text \<open>A fresh image: its header is set, its buffer holds whatever memory held.\<close>

definition cvCreateImage :: "int \<times> int \<Rightarrow> nat \<Rightarrow> nat \<Rightarrow> iplimage" where
  "cvCreateImage sz d channels =
     \<lparr>width = fst sz, height = snd sz, depth = d, nChannels = channels,
      zeroed = False, strokes = []\<rparr>"

text \<open>\<^verbatim>\<open>memset(image->imageData, 0x00, image->imageSize)\<close>: the whole buffer is black,
  whatever was drawn before.\<close>

definition memset_zero :: "iplimage \<Rightarrow> iplimage" where
  "memset_zero img = img\<lparr>zeroed := True, strokes := []\<rparr>"

definition cvLine ::
  "iplimage \<Rightarrow> cv_point \<Rightarrow> cv_point \<Rightarrow> cv_scalar \<Rightarrow> int \<Rightarrow> int \<Rightarrow> int \<Rightarrow> iplimage" where
  "cvLine img pt1 pt2 color thickness line_type shift =
     img\<lparr>strokes := strokes img @ [Line pt1 pt2 color thickness line_type shift]\<rparr>"

definition cvCircle ::
  "iplimage \<Rightarrow> cv_point \<Rightarrow> int \<Rightarrow> cv_scalar \<Rightarrow> int \<Rightarrow> int \<Rightarrow> int \<Rightarrow> iplimage" where
  "cvCircle img center radius color thickness line_type shift =
     img\<lparr>strokes := strokes img @ [Circle center radius color thickness line_type shift]\<rparr>"

text \<open>\<^verbatim>\<open>cvCloneImage\<close> of a \<^verbatim>\<open>NULL\<close> image raises the OpenCV error
  \<^verbatim>\<open>CV_StsBadArg\<close> (``Bad image header''); otherwise it returns an independent copy,
  which a value already is.  The other codes a \<^verbatim>\<open>cv::Exception\<close> raised on this
  program's paths carries: \<^verbatim>\<open>CV_StsAssert\<close> of a failed \<^verbatim>\<open>CV_Assert\<close> and
  \<^verbatim>\<open>CV_StsError\<close> of \<^verbatim>\<open>imwrite\<close> finding no encoder for a file name.\<close>

datatype cv_error = CV_StsBadArg | CV_StsAssert | CV_StsError

definition cvCloneImage :: "iplimage option \<Rightarrow> cv_error + iplimage" where
  "cvCloneImage src = (case src of None \<Rightarrow> Inl CV_StsBadArg | Some img \<Rightarrow> Inr img)"

text \<open>\<^verbatim>\<open>cvReleaseImage(&image)\<close> frees the image and sets the pointer to
  \<^verbatim>\<open>NULL\<close>.\<close>

definition cvReleaseImage :: "iplimage option \<Rightarrow> iplimage option" where
  "cvReleaseImage p = None"

record disk =
  files :: "string \<Rightarrow> iplimage option"
  writable :: "string \<Rightarrow> bool"

text \<open>\<^verbatim>\<open>cvSaveImage\<close> replaces the file when the name can be written and leaves the disk
  as it is otherwise; its status is returned to a caller that ignores it.\<close>

definition cvSaveImage :: "string \<Rightarrow> iplimage \<Rightarrow> disk \<Rightarrow> disk" where
  "cvSaveImage filename img d =
     (if writable d filename then d\<lparr>files := (files d)(filename \<mapsto> img)\<rparr> else d)"

subsection \<open>The checks the library makes before drawing and saving\<close>

text \<open>
  \<^verbatim>\<open>cvLine\<close> and \<^verbatim>\<open>cvCircle\<close> wrap \<^verbatim>\<open>cv::line\<close> and \<^verbatim>\<open>cv::circle\<close>,
  which assert their arguments before drawing anything:
  \<^verbatim>\<open>CV_Assert(0 <= thickness && thickness <= MAX_THICKNESS)\<close> and
  \<^verbatim>\<open>CV_Assert(0 <= shift && shift <= XY_SHIFT)\<close> for a line,
  \<^verbatim>\<open>CV_Assert(radius >= 0 && thickness <= MAX_THICKNESS && 0 <= shift && shift <= XY_SHIFT)\<close>
  for a circle.  A failed assertion raises \<^verbatim>\<open>CV_StsAssert\<close> and leaves the image as
  it was.  \<^verbatim>\<open>cvSaveImage\<close> calls \<^verbatim>\<open>imwrite\<close>, which raises
  \<^verbatim>\<open>CV_StsError\<close> when no encoder of the library build matches the file name's
  extension; which extensions have one depends on the build, so it is the parameter
  \<open>has_encoder\<close>.  Once an encoder is found, a name that cannot be written makes
  \<^verbatim>\<open>cvSaveImage\<close> return 0, as \<open>cvSaveImage\<close> models.
\<close>

definition MAX_THICKNESS :: int where
  "MAX_THICKNESS = 32767"

definition XY_SHIFT :: int where
  "XY_SHIFT = 16"

definition cvLine_checks :: "int \<Rightarrow> int \<Rightarrow> bool" where
  "cvLine_checks thickness shift \<longleftrightarrow>
     0 \<le> thickness \<and> thickness \<le> MAX_THICKNESS \<and> 0 \<le> shift \<and> shift \<le> XY_SHIFT"

definition cvCircle_checks :: "int \<Rightarrow> int \<Rightarrow> int \<Rightarrow> bool" where
  "cvCircle_checks radius thickness shift \<longleftrightarrow>
     0 \<le> radius \<and> thickness \<le> MAX_THICKNESS \<and> 0 \<le> shift \<and> shift \<le> XY_SHIFT"

definition cvLine_chk ::
  "iplimage \<Rightarrow> cv_point \<Rightarrow> cv_point \<Rightarrow> cv_scalar \<Rightarrow> int \<Rightarrow> int \<Rightarrow> int \<Rightarrow> cv_error + iplimage" where
  "cvLine_chk img pt1 pt2 color thickness line_type shift =
     (if cvLine_checks thickness shift then Inr (cvLine img pt1 pt2 color thickness line_type shift)
      else Inl CV_StsAssert)"

definition cvCircle_chk ::
  "iplimage \<Rightarrow> cv_point \<Rightarrow> int \<Rightarrow> cv_scalar \<Rightarrow> int \<Rightarrow> int \<Rightarrow> int \<Rightarrow> cv_error + iplimage" where
  "cvCircle_chk img center radius color thickness line_type shift =
     (if cvCircle_checks radius thickness shift
      then Inr (cvCircle img center radius color thickness line_type shift)
      else Inl CV_StsAssert)"

definition cvSaveImage_chk ::
  "(string \<Rightarrow> bool) \<Rightarrow> string \<Rightarrow> iplimage \<Rightarrow> disk \<Rightarrow> cv_error + disk" where
  "cvSaveImage_chk has_encoder filename img d =
     (if has_encoder filename then Inr (cvSaveImage filename img d) else Inl CV_StsError)"

subsection \<open>Rendering through an abstract painter\<close>

text \<open>
  The pixels of a zero-filled image are the black buffer \<open>blank\<close> painted with every
  recorded primitive in order.  \<open>paint\<close> is the library's rasteriser, a parameter of
  every lemma below.
\<close>

definition render :: "('p \<Rightarrow> draw_op \<Rightarrow> 'p) \<Rightarrow> 'p \<Rightarrow> iplimage \<Rightarrow> 'p" where
  "render paint blank img = foldl paint blank (strokes img)"

subsection \<open>Rendering lemmas\<close>

lemmas canvas_defs = cvScalar_def cvPoint_def cvSize_def cvCreateImage_def memset_zero_def
  cvLine_def cvCircle_def cvCloneImage_def cvSaveImage_def IPL_DEPTH_8U_def CV_AA_def CV_LINE_8_def
  MAX_THICKNESS_def XY_SHIFT_def cvLine_checks_def cvCircle_checks_def cvLine_chk_def
  cvCircle_chk_def cvSaveImage_chk_def

declare canvas_defs [device_defs] cvReleaseImage_def [simp, device_defs]

lemma render_memset_zero [simp]: "render paint blank (memset_zero img) = blank"
  by (simp add: render_def memset_zero_def)

lemma render_cvLine [simp]:
  "render paint blank (cvLine img p q c t l s) = paint (render paint blank img) (Line p q c t l s)"
  by (simp add: render_def cvLine_def)

lemma render_cvCircle [simp]:
  "render paint blank (cvCircle img p r c t l s) = paint (render paint blank img) (Circle p r c t l s)"
  by (simp add: render_def cvCircle_def)

subsection \<open>Frame lemmas: drawing changes the pixels only\<close>

lemma cvLine_header [simp]:
  "width (cvLine img p q c t l s) = width img"
  "height (cvLine img p q c t l s) = height img"
  "depth (cvLine img p q c t l s) = depth img"
  "nChannels (cvLine img p q c t l s) = nChannels img"
  "zeroed (cvLine img p q c t l s) = zeroed img"
  "strokes (cvLine img p q c t l s) = strokes img @ [Line p q c t l s]"
  by (simp_all add: cvLine_def)

lemma cvCircle_header [simp]:
  "width (cvCircle img p r c t l s) = width img"
  "height (cvCircle img p r c t l s) = height img"
  "depth (cvCircle img p r c t l s) = depth img"
  "nChannels (cvCircle img p r c t l s) = nChannels img"
  "zeroed (cvCircle img p r c t l s) = zeroed img"
  "strokes (cvCircle img p r c t l s) = strokes img @ [Circle p r c t l s]"
  by (simp_all add: cvCircle_def)

lemma cvCloneImage_Inr_iff [simp]: "cvCloneImage src = Inr img \<longleftrightarrow> src = Some img"
  by (simp add: cvCloneImage_def split: option.split)

lemma cvCloneImage_None [simp]: "cvCloneImage None = Inl CV_StsBadArg"
  by (simp add: cvCloneImage_def)

lemma files_cvSaveImage:
  "files (cvSaveImage f img d) g = (if g = f \<and> writable d f then Some img else files d g)"
  by (simp add: cvSaveImage_def)

lemma cvLine_chk_Inr_iff:
  "cvLine_chk img p q c t l s = Inr img' \<longleftrightarrow> cvLine_checks t s \<and> img' = cvLine img p q c t l s"
  by (auto simp: cvLine_chk_def)

lemma cvLine_chk_Inl_iff:
  "cvLine_chk img p q c t l s = Inl e \<longleftrightarrow> \<not> cvLine_checks t s \<and> e = CV_StsAssert"
  by (auto simp: cvLine_chk_def)

lemma cvCircle_chk_ok [simp]:
  "cvCircle_checks r t s \<Longrightarrow> cvCircle_chk img p r c t l s = Inr (cvCircle img p r c t l s)"
  by (simp add: cvCircle_chk_def)

lemma cvLine_chk_ok [simp]:
  "cvLine_checks t s \<Longrightarrow> cvLine_chk img p q c t l s = Inr (cvLine img p q c t l s)"
  by (simp add: cvLine_chk_def)

lemma writable_cvSaveImage [simp]: "writable (cvSaveImage f img d) = writable d"
  by (simp add: cvSaveImage_def)

end
