(* ===== verification/Device.thy ===== *)
theory Device
  imports Canvas
begin

text \<open>
  The simulated device \<^verbatim>\<open>Device::CV_sim\<close> of \<^verbatim>\<open>src/lib/device_cv_sim.cpp\<close>: its
  member variables as the record \<open>cv_sim\<close> (the \<^verbatim>\<open>IplImage *\<close> pointer as an
  option, \<^verbatim>\<open>NULL\<close> being \<open>None\<close>), its two constructors, and one definition per
  method, each taking the object first and returning the method's \<^verbatim>\<open>bool\<close> with the
  updated object.  \<open>stop\<close> also takes and returns the disk that
  \<^verbatim>\<open>cvSaveImage\<close> writes; \<open>get_image\<close> returns the annotated copy or the OpenCV
  error of cloning a \<^verbatim>\<open>NULL\<close> image.  The header \<^verbatim>\<open>device_cv_sim.hpp\<close> is not
  in the repository: the types of the members are read off their uses (\<^verbatim>\<open>tool_width\<close>
  is cast with \<^verbatim>\<open>(int)\<close> where it is drawn, so it is a floating value, a real here).
\<close>

record cv_sim =
  running :: bool
  image :: "iplimage option"
  current_position :: xy
  tool_width :: real
  output_filename :: string

definition CV_sim_default :: cv_sim where
  "CV_sim_default =
     \<lparr>running = False, image = None, current_position = \<lparr>x = 0, y = 0\<rparr>, tool_width = 1,
      output_filename = []\<rparr>"

definition CV_sim :: "string \<Rightarrow> cv_sim" where
  "CV_sim filename =
     \<lparr>running = False, image = None, current_position = \<lparr>x = 0, y = 0\<rparr>, tool_width = 1,
      output_filename = filename\<rparr>"

definition move_to :: "cv_sim \<Rightarrow> xy \<Rightarrow> cv_sim result" where
  "move_to s aPoint =
     (if \<not> running s then (False, s)
      else (True, s\<lparr>current_position := convert_to_internal aPoint\<rparr>))"

text \<open>The \<^verbatim>\<open>cvLine\<close> call of \<^verbatim>\<open>cut_to\<close>: grey, \<^verbatim>\<open>(int)tool_width\<close> thick,
  anti-aliased, no fractional bits.\<close>

definition cut_stroke :: "xy \<Rightarrow> xy \<Rightarrow> real \<Rightarrow> iplimage \<Rightarrow> iplimage" where
  "cut_stroke cur next_position tw img =
     cvLine img (cvPoint (x cur) (y cur)) (cvPoint (x next_position) (y next_position))
       (cvScalar 120 120 120) (trunc_real tw) CV_AA 0"

definition cut_to :: "cv_sim \<Rightarrow> xy \<Rightarrow> cv_sim result" where
  "cut_to s aPoint =
     (if \<not> running s then (False, s)
      else
        (let next_position = convert_to_internal aPoint;
             s' = (case image s of
                     None \<Rightarrow> s
                   | Some img \<Rightarrow>
                       s\<lparr>image := Some (cut_stroke (current_position s) next_position (tool_width s) img)\<rparr>)
         in (True, s'\<lparr>current_position := next_position\<rparr>)))"

text \<open>The canvas \<^verbatim>\<open>start\<close> allocates: \<^verbatim>\<open>DPI_X * DEFAULT_SIZE_X\<close> by
  \<^verbatim>\<open>DPI_Y * DEFAULT_SIZE_Y\<close> pixels, 8 bits, one channel, zero-filled.\<close>

definition new_canvas :: iplimage where
  "new_canvas =
     memset_zero (cvCreateImage (cvSize (DPI_X * DEFAULT_SIZE_X) (DPI_Y * DEFAULT_SIZE_Y)) IPL_DEPTH_8U 1)"

definition start :: "cv_sim \<Rightarrow> cv_sim result" where
  "start s =
     (let s' = (if image s = None then s\<lparr>image := Some new_canvas\<rparr> else s)
      in (True, s'\<lparr>running := True\<rparr>))"

definition stop :: "cv_sim \<Rightarrow> disk \<Rightarrow> bool \<times> cv_sim \<times> disk" where
  "stop s d =
     (let (s', d') =
        (case image s of
           Some img \<Rightarrow>
             if 4 < length (output_filename s)
             then (s\<lparr>image := cvReleaseImage (image s)\<rparr>, cvSaveImage (output_filename s) img d)
             else (s, d)
         | None \<Rightarrow> (s, d))
      in (True, s'\<lparr>running := False\<rparr>, d'))"

definition set_tool_width :: "cv_sim \<Rightarrow> real \<Rightarrow> cv_sim result" where
  "set_tool_width s temp_tool_width =
     (if temp_tool_width > 0 then
        (let tw = \<bar>temp_tool_width\<bar> * of_int DPI_X * of_int DPI_Y / sqrt (of_int (DPI_X * DPI_Y)) + 0.5;
             tw' = (if tw < 1 then 1 else tw)
         in (True, s\<lparr>tool_width := tw'\<rparr>))
      else (False, s))"

text \<open>The overlay of \<^verbatim>\<open>get_image\<close>: a circle of radius 10 and thickness 2 and the two
  diagonals of a 10 by 10 square, light grey, around the tool position; the line type
  and shift are the defaults of the C API.\<close>

definition get_image :: "cv_sim \<Rightarrow> cv_error + iplimage" where
  "get_image s =
     (case cvCloneImage (image s) of
        Inl e \<Rightarrow> Inl e
      | Inr new_image \<Rightarrow>
          (let rgb = CvScalar 250 250 250 0;
               cp = current_position s;
               i1 = cvCircle new_image (cvPoint (x cp) (y cp)) 10 rgb 2 CV_LINE_8 0;
               i2 = cvLine i1 (cvPoint (x cp + 5) (y cp + 5)) (cvPoint (x cp - 5) (y cp - 5))
                      rgb 1 CV_LINE_8 0;
               i3 = cvLine i2 (cvPoint (x cp + 5) (y cp - 5)) (cvPoint (x cp - 5) (y cp + 5))
                      rgb 1 CV_LINE_8 0
           in Inr i3))"

text \<open>The annotation \<^verbatim>\<open>get_image\<close> burns into its copy, centred on the tool.\<close>

definition position_marker :: "xy \<Rightarrow> draw_op list" where
  "position_marker cp =
     (let rgb = CvScalar 250 250 250 0
      in [Circle (cvPoint (x cp) (y cp)) 10 rgb 2 CV_LINE_8 0,
          Line (cvPoint (x cp + 5) (y cp + 5)) (cvPoint (x cp - 5) (y cp - 5)) rgb 1 CV_LINE_8 0,
          Line (cvPoint (x cp + 5) (y cp - 5)) (cvPoint (x cp - 5) (y cp + 5)) rgb 1 CV_LINE_8 0])"

text \<open>\<open>cut_path\<close> issues one \<^verbatim>\<open>cut_to\<close> per point, ignoring the returned flags, as
  \<^verbatim>\<open>curve_to\<close> does; \<open>polyline_ops\<close> is the list of grey lines such a path
  draws from a raster start point, \<open>cut_op\<close> one of them.\<close>

definition cut_op :: "xy \<Rightarrow> xy \<Rightarrow> real \<Rightarrow> draw_op" where
  "cut_op cur nxt tw =
     Line (cvPoint (x cur) (y cur)) (cvPoint (x nxt) (y nxt)) (cvScalar 120 120 120) (trunc_real tw) CV_AA 0"

fun polyline_ops :: "real \<Rightarrow> xy \<Rightarrow> xy list \<Rightarrow> draw_op list" where
  "polyline_ops tw cur [] = []"
| "polyline_ops tw cur (p # ps) = cut_op cur p tw # polyline_ops tw p ps"

definition cut_path :: "cv_sim \<Rightarrow> xy list \<Rightarrow> cv_sim" where
  "cut_path s ps = foldl (\<lambda>s p. snd (cut_to s p)) s ps"

declare CV_sim_default_def [device_defs] CV_sim_def [device_defs] move_to_def [device_defs]
  cut_stroke_def [device_defs] cut_to_def [device_defs] new_canvas_def [device_defs]
  start_def [device_defs] stop_def [device_defs]
  get_image_def [device_defs]
  position_marker_def [device_defs]

subsection \<open>Each method on each branch\<close>

text \<open>\<open>set_tool_width\<close> computes \<^verbatim>\<open>sqrt(DPI_X * DPI_Y)\<close>; the code equation below
  evaluates it to 100 so that the operation runs in generated code.\<close>

lemma move_to_stopped [simp]: "\<not> running s \<Longrightarrow> move_to s p = (False, s)"
  by (simp add: move_to_def)

lemma cut_to_stopped [simp]: "\<not> running s \<Longrightarrow> cut_to s p = (False, s)"
  by (simp add: cut_to_def)

lemma move_to_running:
  "running s \<Longrightarrow> move_to s p = (True, s\<lparr>current_position := convert_to_internal p\<rparr>)"
  by (simp add: move_to_def)

lemma cut_to_running:
  "running s \<Longrightarrow> cut_to s p =
     (True, s\<lparr>image := map_option (cut_stroke (current_position s) (convert_to_internal p) (tool_width s)) (image s),
              current_position := convert_to_internal p\<rparr>)"
  by (cases "image s") (simp_all add: cut_to_def Let_def)

lemma new_canvas_header [simp]:
  "width new_canvas = 600" "height new_canvas = 600" "depth new_canvas = 8"
  "nChannels new_canvas = 1" "zeroed new_canvas" "strokes new_canvas = []"
  by (simp_all add: new_canvas_def canvas_defs config_defs)

lemma start_allocates:
  "image s = None \<Longrightarrow> start s = (True, s\<lparr>image := Some new_canvas, running := True\<rparr>)"
  by (simp add: start_def)

lemma start_keeps:
  "image s = Some img \<Longrightarrow> start s = (True, s\<lparr>running := True\<rparr>)"
  by (simp add: start_def)

lemma stop_saves:
  "image s = Some img \<Longrightarrow> 4 < length (output_filename s) \<Longrightarrow>
   stop s d = (True, s\<lparr>image := None, running := False\<rparr>, cvSaveImage (output_filename s) img d)"
  by (simp add: stop_def)

lemma stop_keeps:
  "length (output_filename s) \<le> 4 \<Longrightarrow> stop s d = (True, s\<lparr>running := False\<rparr>, d)"
  by (simp add: stop_def split: option.split)

lemma stop_no_image:
  "image s = None \<Longrightarrow> stop s d = (True, s\<lparr>running := False\<rparr>, d)"
  by (simp add: stop_def)

lemma set_tool_width_pos:
  "0 < w \<Longrightarrow> set_tool_width s w = (True, s\<lparr>tool_width := max 1 (100 * w + 1 / 2)\<rparr>)"
  unfolding set_tool_width_def sqrt_DPI by (simp add: config_defs max_def)

lemma set_tool_width_code [code, device_defs]:
  "set_tool_width s temp_tool_width =
     (if temp_tool_width > 0 then
        (let tw = \<bar>temp_tool_width\<bar> * of_int DPI_X * of_int DPI_Y / 100 + 0.5
         in (True, s\<lparr>tool_width := (if tw < 1 then 1 else tw)\<rparr>))
      else (False, s))"
  unfolding set_tool_width_def sqrt_DPI by (simp add: Let_def)

lemma get_image_canvas:
  "image s = Some img \<Longrightarrow>
   get_image s = Inr (img\<lparr>strokes := strokes img @ position_marker (current_position s)\<rparr>)"
  by (simp add: get_image_def position_marker_def cvLine_def cvCircle_def cvCloneImage_def Let_def)


subsection \<open>Sequences of cuts\<close>

lemma cut_stroke_eq: "cut_stroke cur nxt tw img = img\<lparr>strokes := strokes img @ [cut_op cur nxt tw]\<rparr>"
  by (simp add: cut_stroke_def cut_op_def cvLine_def)

lemma length_polyline_ops [simp]: "length (polyline_ops tw cur ps) = length ps"
  by (induction ps arbitrary: cur) simp_all

lemma cut_path_Nil [simp]: "cut_path s [] = s"
  by (simp add: cut_path_def)

lemma cut_path_Cons: "cut_path s (p # ps) = cut_path (snd (cut_to s p)) ps"
  by (simp add: cut_path_def)

lemma cut_path_stopped: "\<not> running s \<Longrightarrow> cut_path s ps = s"
  by (induction ps) (simp_all add: cut_path_def)

lemma cut_path_running:
  "running s \<Longrightarrow> cut_path s ps =
     s\<lparr>image := map_option (\<lambda>img. img\<lparr>strokes := strokes img @
                   polyline_ops (tool_width s) (current_position s) (map convert_to_internal ps)\<rparr>) (image s),
       current_position := (if ps = [] then current_position s else convert_to_internal (last ps))\<rparr>"
proof (induction ps arbitrary: s)
  case Nil
  then show ?case by (cases "image s") simp_all
next
  case (Cons p ps)
  let ?s1 = "snd (cut_to s p)"
  have s1: "?s1 = s\<lparr>image := map_option (cut_stroke (current_position s) (convert_to_internal p) (tool_width s)) (image s),
              current_position := convert_to_internal p\<rparr>"
    using Cons.prems by (simp add: cut_to_running)
  have "running ?s1" using s1 Cons.prems by simp
  then have "cut_path ?s1 ps = ?s1\<lparr>image := map_option (\<lambda>img. img\<lparr>strokes := strokes img @
                   polyline_ops (tool_width ?s1) (current_position ?s1) (map convert_to_internal ps)\<rparr>) (image ?s1),
       current_position := (if ps = [] then current_position ?s1 else convert_to_internal (last ps))\<rparr>"
    by (rule Cons.IH)
  then show ?case
    by (cases "image s") (simp_all add: cut_path_Cons s1 cut_stroke_eq)
qed

subsection \<open>Properties of the methods\<close>

text \<open>C5: \<^verbatim>\<open>stop\<close> on a device whose output file name has at most four characters
  does not save and does not release the canvas: the image stays allocated, with everything
  drawn on it, and the disk is untouched; the device is stopped and the call succeeds.\<close>

theorem stop_short_name_keeps_canvas:
  "length (output_filename s) \<le> 4 \<Longrightarrow>
   fst (stop s d) \<and> image (fst (snd (stop s d))) = image s \<and>
   \<not> running (fst (snd (stop s d))) \<and> snd (snd (stop s d)) = d"
  by (simp add: stop_def split: option.split)

theorem stop_short_name_keeps_canvas_witness:
  "length (output_filename (snd (start (CV_sim ''a.p'')))) \<le> 4 \<and>
   image (fst (snd (stop (snd (start (CV_sim ''a.p''))) \<lparr>files = Map.empty, writable = (\<lambda>_. True)\<rparr>))) =
     Some new_canvas"
proof -
  have h: "length (output_filename (snd (start (CV_sim ''a.p'')))) \<le> 4"
    by (simp add: start_def CV_sim_def)
  show ?thesis
    using h stop_short_name_keeps_canvas [OF h, of "\<lparr>files = Map.empty, writable = (\<lambda>_. True)\<rparr>"]
    by (simp add: start_def CV_sim_def)
qed

text \<open>C6: \<^verbatim>\<open>start\<close> on a device that already has a canvas neither reallocates nor
  clears it and does not move the tool; starting twice is starting once.\<close>

theorem start_keeps_canvas:
  "image s = Some img \<Longrightarrow>
   fst (start s) \<and> running (snd (start s)) \<and> image (snd (start s)) = Some img \<and>
   current_position (snd (start s)) = current_position s \<and> start (snd (start s)) = start s"
  by (simp add: start_def)

theorem start_keeps_canvas_witness:
  "image (snd (start (CV_sim ''out.png''))) = Some new_canvas \<and>
   start (snd (start (snd (start (CV_sim ''out.png''))))) = start (snd (start (CV_sim ''out.png'')))"
proof -
  have h: "image (snd (start (CV_sim ''out.png''))) = Some new_canvas"
    by (simp add: start_def CV_sim_def)
  show ?thesis using h start_keeps_canvas [OF h] by simp
qed

text \<open>C7: \<^verbatim>\<open>set_tool_width\<close> with a positive width succeeds, and the stroke
  thickness it yields, the truncation \<^verbatim>\<open>(int)tool_width\<close> that \<^verbatim>\<open>cut_to\<close> passes
  to \<^verbatim>\<open>cvLine\<close>, is the width in raster units rounded half up and clamped to at
  least 1.\<close>

theorem set_tool_width_positive:
  "0 < w \<Longrightarrow>
   fst (set_tool_width s w) \<and> 1 \<le> tool_width (snd (set_tool_width s w)) \<and>
   trunc_real (tool_width (snd (set_tool_width s w))) = max 1 (round (100 * w))"
  by (simp add: set_tool_width_pos trunc_real_max_one round_def)

theorem set_tool_width_positive_witness:
  "0 < (0.5::real) \<and> trunc_real (tool_width (snd (set_tool_width (CV_sim ''out.png'') 0.5))) = 50"
  using set_tool_width_positive [of "0.5" "CV_sim ''out.png''"] by simp




text \<open>C13: \<^verbatim>\<open>stop\<close> on a device with a canvas and an output file name longer than four
  characters writes the canvas to that file (when the name is writable), releases the
  canvas and stops the device.\<close>

theorem stop_persists_canvas:
  "image s = Some img \<Longrightarrow> 4 < length (output_filename s) \<Longrightarrow> writable d (output_filename s) \<Longrightarrow>
   fst (stop s d) \<and> files (snd (snd (stop s d))) (output_filename s) = Some img \<and>
   image (fst (snd (stop s d))) = None \<and> \<not> running (fst (snd (stop s d)))"
  by (simp add: stop_saves files_cvSaveImage)

theorem stop_persists_canvas_witness:
  "files (snd (snd (stop (snd (start (CV_sim ''out.png''))) \<lparr>files = Map.empty, writable = (\<lambda>_. True)\<rparr>)))
     ''out.png'' = Some new_canvas"
proof -
  have i: "image (snd (start (CV_sim ''out.png''))) = Some new_canvas" by (simp add: start_def CV_sim_def)
  have l: "4 < length (output_filename (snd (start (CV_sim ''out.png''))))" by (simp add: start_def CV_sim_def)
  have w: "writable \<lparr>files = Map.empty, writable = (\<lambda>_. True)\<rparr> (output_filename (snd (start (CV_sim ''out.png''))))"
    by simp
  show ?thesis using stop_persists_canvas [OF i l w] by (simp add: start_def CV_sim_def)
qed

text \<open>C14: \<^verbatim>\<open>stop\<close> always reports success and always stops the device, also when
  the file cannot be written: the disk is then unchanged and the failure is not reported.\<close>

theorem stop_always_succeeds:
  "fst (stop s d) \<and> \<not> running (fst (snd (stop s d))) \<and>
   (\<not> writable d (output_filename s) \<longrightarrow> snd (snd (stop s d)) = d)"
  by (simp add: stop_def cvSaveImage_def split: option.split)

theorem stop_always_succeeds_witness:
  "\<not> writable \<lparr>files = Map.empty, writable = (\<lambda>_. False)\<rparr> (output_filename (snd (start (CV_sim ''out.png'')))) \<and>
   stop (snd (start (CV_sim ''out.png''))) \<lparr>files = Map.empty, writable = (\<lambda>_. False)\<rparr> =
     (True, fst (snd (stop (snd (start (CV_sim ''out.png''))) \<lparr>files = Map.empty, writable = (\<lambda>_. False)\<rparr>)),
      \<lparr>files = Map.empty, writable = (\<lambda>_. False)\<rparr>)"
  using stop_always_succeeds [of "snd (start (CV_sim ''out.png''))" "\<lparr>files = Map.empty, writable = (\<lambda>_. False)\<rparr>"]
  by (simp add: prod_eq_iff)

text \<open>C17: the first \<^verbatim>\<open>start\<close> allocates a zero-filled 8-bit single-channel canvas
  whose size in pixels is the logical size \<^verbatim>\<open>get_dimensions\<close> transformed by
  \<^verbatim>\<open>convert_to_internal\<close> (600 by 600), with nothing drawn on it.\<close>

theorem start_allocates_blank_canvas:
  "image s = None \<Longrightarrow>
   \<exists>img. image (snd (start s)) = Some img \<and> running (snd (start s)) \<and>
     real_of_int (width img) = x (convert_to_internal get_dimensions) \<and>
     real_of_int (height img) = y (convert_to_internal get_dimensions) \<and>
     depth img = IPL_DEPTH_8U \<and> nChannels img = 1 \<and> zeroed img \<and> strokes img = []"
  by (simp add: start_allocates get_dimensions_def config_defs IPL_DEPTH_8U_def)

theorem start_allocates_blank_canvas_witness:
  "image (CV_sim ''out.png'') = None \<and> image (snd (start (CV_sim ''out.png''))) = Some new_canvas"
proof -
  have h: "image (CV_sim ''out.png'') = None" by (simp add: CV_sim_def)
  show ?thesis using h start_allocates_blank_canvas [OF h] by (simp add: start_allocates)
qed

text \<open>C23: \<^verbatim>\<open>get_image\<close> on a device without a canvas does not produce an image:
  cloning the \<^verbatim>\<open>NULL\<close> image is the OpenCV error \<^verbatim>\<open>CV_StsBadArg\<close>.\<close>

theorem get_image_without_canvas:
  "image s = None \<Longrightarrow> get_image s = Inl CV_StsBadArg"
  by (simp add: get_image_def)

theorem get_image_without_canvas_witness:
  "get_image (CV_sim ''out.png'') = Inl CV_StsBadArg"
  using get_image_without_canvas [of "CV_sim ''out.png''"] by (simp add: CV_sim_def)



text \<open>C29: for a positive width below \<open>2^31 / 100\<close> the stored tool width converts to a
  C \<^verbatim>\<open>int\<close> without overflow where \<^verbatim>\<open>cut_to\<close> casts it.\<close>

theorem set_tool_width_representable:
  "0 < w \<Longrightarrow> w < 21474836 \<Longrightarrow> c_int_representable (tool_width (snd (set_tool_width s w)))"
  by (simp add: set_tool_width_pos c_int_representable_def)

theorem set_tool_width_representable_witness:
  "c_int_representable (tool_width (snd (set_tool_width (CV_sim ''out.png'') 2)))"
  using set_tool_width_representable [of 2 "CV_sim ''out.png''"] by simp

text \<open>C32: a second \<^verbatim>\<open>stop\<close> changes nothing: it writes nothing to the disk and
  leaves the device as the first one left it.\<close>

theorem stop_twice:
  "stop (fst (snd (stop s d))) d' = (True, fst (snd (stop s d)), d')"
  by (simp add: stop_def split: option.split)

end
