(* ===== verification/Curve.thy ===== *)
theory Curve
  imports Device "HOL-Library.While_Combinator"
begin

text \<open>
  \<^verbatim>\<open>CV_sim::curve_to\<close> (lines 98--145 of \<^verbatim>\<open>src/lib/device_cv_sim.cpp\<close>): the cubic
  coefficients of each axis (the array \<^verbatim>\<open>coeff[NUM_FACT][NUM_DIM]\<close> as a record of
  three points, one per power of \<open>t\<close>), the evaluation of the polynomial at step
  \<open>i\<close>, the \<^verbatim>\<open>for\<close> loop over \<open>i = 1 .. NUM_SECTIONS_PER_CURVE\<close> as a recursive
  function with a measure, and the method itself.  The reference it is proved against is
  the Bernstein form of the cubic B\'ezier curve.  The same loop is also written as the C
  \<^verbatim>\<open>for\<close> statement it is, a \<open>while_option\<close> over the pair of the \<^verbatim>\<open>int\<close>
  counter and the object, and proved to stop after twenty rounds and to compute what the
  recursive function computes.
\<close>

definition NUM_SECTIONS_PER_CURVE :: nat where
  "NUM_SECTIONS_PER_CURVE = 20"

record coeff =
  coeff_A :: xy
  coeff_B :: xy
  coeff_C :: xy

definition curve_coeffs :: "xy \<Rightarrow> xy \<Rightarrow> xy \<Rightarrow> xy \<Rightarrow> coeff" where
  "curve_coeffs p0 p1 p2 p3 =
     (let cCX = 3 * (x p1 - x p0);
          cBX = 3 * (x p2 - x p1) - cCX;
          cAX = (x p3 - x p0) - cCX - cBX;
          cCY = 3 * (y p1 - y p0);
          cBY = 3 * (y p2 - y p1) - cCY;
          cAY = (y p3 - y p0) - cCY - cBY
      in \<lparr>coeff_A = \<lparr>x = cAX, y = cAY\<rparr>, coeff_B = \<lparr>x = cBX, y = cBY\<rparr>,
          coeff_C = \<lparr>x = cCX, y = cCY\<rparr>\<rparr>)"

definition curve_t :: "nat \<Rightarrow> real" where
  "curve_t i = real i / real NUM_SECTIONS_PER_CURVE"

definition curve_iter :: "coeff \<Rightarrow> xy \<Rightarrow> real \<Rightarrow> xy" where
  "curve_iter c p0 t =
     \<lparr>x = x (coeff_A c) * t * t * t + x (coeff_B c) * t * t + x (coeff_C c) * t + x p0,
      y = y (coeff_A c) * t * t * t + y (coeff_B c) * t * t + y (coeff_C c) * t + y p0\<rparr>"

function curve_loop :: "coeff \<Rightarrow> xy \<Rightarrow> nat \<Rightarrow> cv_sim \<Rightarrow> cv_sim" where
  "curve_loop c p0 i s =
     (if i \<le> NUM_SECTIONS_PER_CURVE
      then curve_loop c p0 (Suc i) (snd (cut_to s (curve_iter c p0 (curve_t i))))
      else s)"
  by pat_completeness auto
termination
  by (relation "measure (\<lambda>(c, p0, i, s). Suc NUM_SECTIONS_PER_CURVE - i)") auto

declare curve_loop.simps [simp del]

definition curve_to :: "cv_sim \<Rightarrow> xy \<Rightarrow> xy \<Rightarrow> xy \<Rightarrow> xy \<Rightarrow> cv_sim result" where
  "curve_to s p0 p1 p2 p3 =
     (if \<not> running s then (False, s)
      else
        (let c = curve_coeffs p0 p1 p2 p3;
             s1 = snd (move_to s p0)
         in (True, curve_loop c p0 1 s1)))"

definition curve_points :: "xy \<Rightarrow> xy \<Rightarrow> xy \<Rightarrow> xy \<Rightarrow> xy list" where
  "curve_points p0 p1 p2 p3 =
     map (\<lambda>i. curve_iter (curve_coeffs p0 p1 p2 p3) p0 (curve_t i)) [1..<Suc NUM_SECTIONS_PER_CURVE]"

text \<open>The reference: the cubic B\'ezier curve in Bernstein form.\<close>

definition bezier :: "xy \<Rightarrow> xy \<Rightarrow> xy \<Rightarrow> xy \<Rightarrow> real \<Rightarrow> xy" where
  "bezier p0 p1 p2 p3 t =
     \<lparr>x = (1 - t) ^ 3 * x p0 + 3 * (1 - t)\<^sup>2 * t * x p1 + 3 * (1 - t) * t\<^sup>2 * x p2 + t ^ 3 * x p3,
      y = (1 - t) ^ 3 * y p0 + 3 * (1 - t)\<^sup>2 * t * y p1 + 3 * (1 - t) * t\<^sup>2 * y p2 + t ^ 3 * y p3\<rparr>"

text \<open>The \<^verbatim>\<open>for( int i = 1; i <= NUM_SECTIONS_PER_CURVE; ++i )\<close> statement: its
  condition, its body followed by \<^verbatim>\<open>++i\<close>, and the loop started at \<open>i = 1\<close>.\<close>

definition curve_for_cond :: "int \<times> cv_sim \<Rightarrow> bool" where
  "curve_for_cond = (\<lambda>(i, s). i \<le> int NUM_SECTIONS_PER_CURVE)"

definition curve_for_body :: "coeff \<Rightarrow> xy \<Rightarrow> int \<times> cv_sim \<Rightarrow> int \<times> cv_sim" where
  "curve_for_body c p0 =
     (\<lambda>(i, s). (i + 1, snd (cut_to s (curve_iter c p0 (real_of_int i / real NUM_SECTIONS_PER_CURVE)))))"

definition curve_for :: "coeff \<Rightarrow> xy \<Rightarrow> cv_sim \<Rightarrow> (int \<times> cv_sim) option" where
  "curve_for c p0 s = while_option curve_for_cond (curve_for_body c p0) (1, s)"

declare curve_coeffs_def [device_defs] curve_t_def [device_defs] curve_iter_def [device_defs]
  curve_to_def [device_defs] NUM_SECTIONS_PER_CURVE_def [device_defs] curve_loop.simps [device_defs]

subsection \<open>The coefficient form is the Bernstein form\<close>

lemma curve_iter_bezier:
  "curve_iter (curve_coeffs p0 p1 p2 p3) p0 t = bezier p0 p1 p2 p3 t"
  by (simp add: curve_iter_def curve_coeffs_def bezier_def Let_def power2_eq_square
      power3_eq_cube algebra_simps)

subsection \<open>The loop\<close>

lemma curve_loop_foldl:
  "curve_loop c p0 i s =
     foldl (\<lambda>s k. snd (cut_to s (curve_iter c p0 (curve_t k)))) s [i..<Suc NUM_SECTIONS_PER_CURVE]"
proof (induction c p0 i s rule: curve_loop.induct)
  case (1 c p0 i s)
  show ?case
  proof (cases "i \<le> NUM_SECTIONS_PER_CURVE")
    case True
    then have "[i..<Suc NUM_SECTIONS_PER_CURVE] = i # [Suc i..<Suc NUM_SECTIONS_PER_CURVE]"
      by (simp add: upt_conv_Cons)
    with True "1.IH" show ?thesis by (simp add: curve_loop.simps [of c p0 i s])
  next
    case False
    then show ?thesis by (simp add: curve_loop.simps [of c p0 i s])
  qed
qed

lemma curve_to_cut_path:
  "running s \<Longrightarrow>
   curve_to s p0 p1 p2 p3 = (True, cut_path (snd (move_to s p0)) (curve_points p0 p1 p2 p3))"
  by (simp add: curve_to_def curve_loop_foldl cut_path_def curve_points_def foldl_map)

lemma curve_points_bezier:
  "curve_points p0 p1 p2 p3 = map (\<lambda>i. bezier p0 p1 p2 p3 (real i / 20)) [1..<21]"
  by (simp add: curve_points_def curve_iter_bezier curve_t_def NUM_SECTIONS_PER_CURVE_def)


lemma curve_to_stopped [simp]: "\<not> running s \<Longrightarrow> curve_to s p0 p1 p2 p3 = (False, s)"
  by (simp add: curve_to_def)

lemma bezier_0 [simp]: "bezier p0 p1 p2 p3 0 = p0"
  by (simp add: bezier_def)

lemma bezier_1 [simp]: "bezier p0 p1 p2 p3 1 = p3"
  by (simp add: bezier_def)

lemma length_curve_points [simp]: "length (curve_points p0 p1 p2 p3) = NUM_SECTIONS_PER_CURVE"
  by (simp add: curve_points_def)

lemma curve_points_not_Nil [simp]: "curve_points p0 p1 p2 p3 \<noteq> []"
  by (simp add: curve_points_def NUM_SECTIONS_PER_CURVE_def)

lemma last_curve_points [simp]: "last (curve_points p0 p1 p2 p3) = p3"
proof -
  have "last [1..<Suc NUM_SECTIONS_PER_CURVE] = NUM_SECTIONS_PER_CURVE"
    by (simp add: NUM_SECTIONS_PER_CURVE_def)
  moreover have "curve_t NUM_SECTIONS_PER_CURVE = 1"
    by (simp add: curve_t_def NUM_SECTIONS_PER_CURVE_def)
  ultimately show ?thesis
    by (simp add: curve_points_def last_map NUM_SECTIONS_PER_CURVE_def curve_iter_bezier)
qed

lemma curve_to_running:
  "running s \<Longrightarrow> curve_to s p0 p1 p2 p3 =
     (True, s\<lparr>image := map_option (\<lambda>img. img\<lparr>strokes := strokes img @
                   polyline_ops (tool_width s) (convert_to_internal p0)
                     (map convert_to_internal (curve_points p0 p1 p2 p3))\<rparr>) (image s),
              current_position := convert_to_internal p3\<rparr>)"
  by (simp add: curve_to_cut_path move_to_running cut_path_running)


lemma curve_for_from:
  "while_option curve_for_cond (curve_for_body c p0) (int i, s) =
     Some (max (int i) (int NUM_SECTIONS_PER_CURVE + 1), curve_loop c p0 i s)"
proof (induction c p0 i s rule: curve_loop.induct)
  case (1 c p0 i s)
  show ?case
  proof (cases "i \<le> NUM_SECTIONS_PER_CURVE")
    case True
    have "curve_for_body c p0 (int i, s) = (int (Suc i), snd (cut_to s (curve_iter c p0 (curve_t i))))"
      by (simp add: curve_for_body_def curve_t_def)
    with True "1.IH" show ?thesis
      by (simp add: while_option_unfold [of _ _ "(int i, s)"] curve_for_cond_def curve_loop.simps [of c p0 i s])
  next
    case False
    then show ?thesis
      by (simp add: while_option_unfold [of _ _ "(int i, s)"] curve_for_cond_def curve_loop.simps [of c p0 i s])
  qed
qed


subsection \<open>The curve stays in the hull of its control points\<close>

lemma bernstein_weights:
  fixes t :: real
  assumes "0 \<le> t" "t \<le> 1"
  shows "0 \<le> (1 - t) ^ 3" "0 \<le> 3 * (1 - t)\<^sup>2 * t" "0 \<le> 3 * (1 - t) * t\<^sup>2" "0 \<le> t ^ 3"
    and "(1 - t) ^ 3 + 3 * (1 - t)\<^sup>2 * t + 3 * (1 - t) * t\<^sup>2 + t ^ 3 = 1"
proof -
  from assms have "0 \<le> 1 - t" by simp
  with assms(1) show "0 \<le> (1 - t) ^ 3" "0 \<le> 3 * (1 - t)\<^sup>2 * t" "0 \<le> 3 * (1 - t) * t\<^sup>2" "0 \<le> t ^ 3"
    by simp_all
  show "(1 - t) ^ 3 + 3 * (1 - t)\<^sup>2 * t + 3 * (1 - t) * t\<^sup>2 + t ^ 3 = 1"
    by (simp add: power2_eq_square power3_eq_cube algebra_simps)
qed

lemma bezier_in_hull:
  assumes "0 \<le> t" "t \<le> 1"
  shows "min (min (x p0) (x p1)) (min (x p2) (x p3)) \<le> x (bezier p0 p1 p2 p3 t)"
    and "x (bezier p0 p1 p2 p3 t) \<le> max (max (x p0) (x p1)) (max (x p2) (x p3))"
    and "min (min (y p0) (y p1)) (min (y p2) (y p3)) \<le> y (bezier p0 p1 p2 p3 t)"
    and "y (bezier p0 p1 p2 p3 t) \<le> max (max (y p0) (y p1)) (max (y p2) (y p3))"
  using convex4_bounds [OF bernstein_weights [OF assms]]
  by (simp_all add: bezier_def mult.assoc)

lemma curve_points_param:
  "q \<in> set (curve_points p0 p1 p2 p3) \<Longrightarrow> \<exists>t. 0 \<le> t \<and> t \<le> 1 \<and> q = bezier p0 p1 p2 p3 t"
proof -
  assume "q \<in> set (curve_points p0 p1 p2 p3)"
  then obtain i where "1 \<le> i" "i \<le> 20" "q = bezier p0 p1 p2 p3 (real i / 20)"
    by (auto simp: curve_points_bezier)
  then show ?thesis by (intro exI [of _ "real i / 20"]) simp
qed


subsection \<open>Properties of \<open>curve_to\<close>\<close>



text \<open>C2: on a running device with a canvas, \<^verbatim>\<open>curve_to\<close> appends to the canvas
  exactly the polyline through the raster images of the points of the cubic B\'ezier curve
  (in Bernstein form) at \<open>t = 1/20, 2/20, \<dots>, 20/20\<close>, starting from the raster image of
  \<open>p0\<close>, each segment grey, anti-aliased and as thick as the current tool: the
  coefficient form of the code computes the reference curve.\<close>

theorem curve_to_draws_bezier_polyline:
  "running s \<Longrightarrow> image s = Some img \<Longrightarrow>
   image (snd (curve_to s p0 p1 p2 p3)) =
     Some (img\<lparr>strokes := strokes img @ polyline_ops (tool_width s) (convert_to_internal p0)
                 (map (\<lambda>i. convert_to_internal (bezier p0 p1 p2 p3 (real i / 20))) [1..<21])\<rparr>)"
  by (simp add: curve_to_running curve_points_bezier comp_def)

theorem curve_to_draws_bezier_polyline_witness:
  "running (snd (start (CV_sim ''cut.png''))) \<and> image (snd (start (CV_sim ''cut.png''))) = Some new_canvas \<and>
   length (strokes (the (image (snd (curve_to (snd (start (CV_sim ''cut.png'')))
     \<lparr>x = 0, y = 0\<rparr> \<lparr>x = 1, y = 0\<rparr> \<lparr>x = 1, y = 1\<rparr> \<lparr>x = 2, y = 1\<rparr>))))) = 20"
proof -
  have r: "running (snd (start (CV_sim ''cut.png'')))" by (simp add: start_def)
  have i: "image (snd (start (CV_sim ''cut.png''))) = Some new_canvas" by (simp add: start_def CV_sim_def)
  show ?thesis
    using r i curve_to_draws_bezier_polyline [OF r i, of "\<lparr>x = 0, y = 0\<rparr>" "\<lparr>x = 1, y = 0\<rparr>" "\<lparr>x = 1, y = 1\<rparr>" "\<lparr>x = 2, y = 1\<rparr>"]
    by simp
qed

text \<open>C12: a running \<^verbatim>\<open>curve_to\<close> is one \<^verbatim>\<open>move_to(p0)\<close> followed by exactly
  \<^verbatim>\<open>NUM_SECTIONS_PER_CURVE\<close> = 20 \<^verbatim>\<open>cut_to\<close> calls, the last of them to \<open>p3\<close>.\<close>

theorem curve_to_one_move_twenty_cuts:
  "running s \<Longrightarrow>
   \<exists>pts. length pts = 20 \<and> last pts = p3 \<and>
     curve_to s p0 p1 p2 p3 = (True, foldl (\<lambda>s p. snd (cut_to s p)) (snd (move_to s p0)) pts)"
  by (rule exI [of _ "curve_points p0 p1 p2 p3"])
    (simp add: curve_to_cut_path cut_path_def NUM_SECTIONS_PER_CURVE_def)

theorem curve_to_one_move_twenty_cuts_witness:
  "running (snd (start (CV_sim ''cut.png''))) \<and>
   (\<exists>pts. length pts = 20 \<and> last pts = \<lparr>x = 2, y = 1\<rparr> \<and>
     curve_to (snd (start (CV_sim ''cut.png''))) \<lparr>x = 0, y = 0\<rparr> \<lparr>x = 1, y = 0\<rparr> \<lparr>x = 1, y = 1\<rparr> \<lparr>x = 2, y = 1\<rparr> =
       (True, foldl (\<lambda>s p. snd (cut_to s p)) (snd (move_to (snd (start (CV_sim ''cut.png''))) \<lparr>x = 0, y = 0\<rparr>)) pts))"
proof -
  have r: "running (snd (start (CV_sim ''cut.png'')))" by (simp add: start_def)
  show ?thesis
    using r curve_to_one_move_twenty_cuts [OF r] by blast
qed

text \<open>C27: every point \<^verbatim>\<open>curve_to\<close> cuts to lies, on each axis, between the least and
  the greatest coordinate of the four control points.\<close>

theorem curve_points_in_hull:
  "q \<in> set (curve_points p0 p1 p2 p3) \<Longrightarrow>
   min (min (x p0) (x p1)) (min (x p2) (x p3)) \<le> x q \<and> x q \<le> max (max (x p0) (x p1)) (max (x p2) (x p3)) \<and>
   min (min (y p0) (y p1)) (min (y p2) (y p3)) \<le> y q \<and> y q \<le> max (max (y p0) (y p1)) (max (y p2) (y p3))"
  using curve_points_param [of q p0 p1 p2 p3] bezier_in_hull by blast

theorem curve_points_in_hull_witness:
  "last (curve_points \<lparr>x = 0, y = 0\<rparr> \<lparr>x = 1, y = 0\<rparr> \<lparr>x = 1, y = 1\<rparr> \<lparr>x = 2, y = 1\<rparr>)
     \<in> set (curve_points \<lparr>x = 0, y = 0\<rparr> \<lparr>x = 1, y = 0\<rparr> \<lparr>x = 1, y = 1\<rparr> \<lparr>x = 2, y = 1\<rparr>) \<and>
   x (last (curve_points \<lparr>x = 0, y = 0\<rparr> \<lparr>x = 1, y = 0\<rparr> \<lparr>x = 1, y = 1\<rparr> \<lparr>x = 2, y = 1\<rparr>)) \<le> 2"
proof -
  have m: "last (curve_points \<lparr>x = 0, y = 0\<rparr> \<lparr>x = 1, y = 0\<rparr> \<lparr>x = 1, y = 1\<rparr> \<lparr>x = 2, y = 1\<rparr>)
     \<in> set (curve_points \<lparr>x = 0, y = 0\<rparr> \<lparr>x = 1, y = 0\<rparr> \<lparr>x = 1, y = 1\<rparr> \<lparr>x = 2, y = 1\<rparr>)"
    by (rule last_in_set) simp
  show ?thesis using m curve_points_in_hull [OF m] by simp
qed



end
