(* ===== verification/Machine.thy ===== *)
theory Machine
  imports Curve
begin

text \<open>
  The device driven through its public interface.  A command is one call of a public
  method of \<^verbatim>\<open>CV_sim\<close>; \<open>exec_cmd\<close> performs it on the device and on the disk
  \<^verbatim>\<open>stop\<close> writes, and returns the method's flag; \<open>run\<close> performs a sequence of
  calls in order.  \<open>reachable\<close> is the set of machines some sequence of calls produces
  from a freshly constructed device and any disk.  The invariant \<open>dev_inv\<close> holds in
  every reachable state: the tool width is at least 1, a running device has a canvas,
  and a canvas has the size and format \<^verbatim>\<open>start\<close> gives it and carries only the
  grey anti-aliased lines of \<^verbatim>\<open>cut_to\<close>, each at least one pixel thick.
\<close>

datatype cmd =
    Start
  | Stop
  | MoveTo xy
  | CutTo xy
  | CurveTo xy xy xy xy
  | SetToolWidth real

record machine =
  dev :: cv_sim
  fs :: disk

fun exec_cmd :: "machine \<Rightarrow> cmd \<Rightarrow> bool \<times> machine" where
  "exec_cmd m Start = (case start (dev m) of (r, s) \<Rightarrow> (r, m\<lparr>dev := s\<rparr>))"
| "exec_cmd m Stop = (case stop (dev m) (fs m) of (r, s, d) \<Rightarrow> (r, m\<lparr>dev := s, fs := d\<rparr>))"
| "exec_cmd m (MoveTo p) = (case move_to (dev m) p of (r, s) \<Rightarrow> (r, m\<lparr>dev := s\<rparr>))"
| "exec_cmd m (CutTo p) = (case cut_to (dev m) p of (r, s) \<Rightarrow> (r, m\<lparr>dev := s\<rparr>))"
| "exec_cmd m (CurveTo p0 p1 p2 p3) =
     (case curve_to (dev m) p0 p1 p2 p3 of (r, s) \<Rightarrow> (r, m\<lparr>dev := s\<rparr>))"
| "exec_cmd m (SetToolWidth w) = (case set_tool_width (dev m) w of (r, s) \<Rightarrow> (r, m\<lparr>dev := s\<rparr>))"

fun run :: "machine \<Rightarrow> cmd list \<Rightarrow> bool list \<times> machine" where
  "run m [] = ([], m)"
| "run m (c # cs) =
     (case exec_cmd m c of (r, m1) \<Rightarrow> (case run m1 cs of (rs, m2) \<Rightarrow> (r # rs, m2)))"

inductive reachable :: "machine \<Rightarrow> bool" where
  init: "reachable \<lparr>dev = CV_sim f, fs = d\<rparr>"
| step: "reachable m \<Longrightarrow> reachable (snd (exec_cmd m c))"

fun is_motion :: "cmd \<Rightarrow> bool" where
  "is_motion (MoveTo p) = True"
| "is_motion (CutTo p) = True"
| "is_motion (CurveTo p0 p1 p2 p3) = True"
| "is_motion c = False"

fun motion_target :: "cmd \<Rightarrow> xy" where
  "motion_target (MoveTo p) = p"
| "motion_target (CutTo p) = p"
| "motion_target (CurveTo p0 p1 p2 p3) = p3"
| "motion_target c = \<lparr>x = 0, y = 0\<rparr>"

fun is_cut_line :: "draw_op \<Rightarrow> bool" where
  "is_cut_line (Line p q c t lt sh) = (c = cvScalar 120 120 120 \<and> 1 \<le> t \<and> lt = CV_AA \<and> sh = 0)"
| "is_cut_line (Circle p r c t lt sh) = False"

definition canvas_wf :: "iplimage \<Rightarrow> bool" where
  "canvas_wf img \<longleftrightarrow>
     width img = DPI_X * DEFAULT_SIZE_X \<and> height img = DPI_Y * DEFAULT_SIZE_Y \<and>
     depth img = IPL_DEPTH_8U \<and> nChannels img = 1 \<and> zeroed img \<and> list_all is_cut_line (strokes img)"

definition dev_inv :: "cv_sim \<Rightarrow> bool" where
  "dev_inv s \<longleftrightarrow> 1 \<le> tool_width s \<and> (running s \<longrightarrow> image s \<noteq> None) \<and> pred_option canvas_wf (image s)"

subsection \<open>The invariant is kept by every method\<close>

lemma cut_op_is_cut_line: "1 \<le> tw \<Longrightarrow> is_cut_line (cut_op cur nxt tw)"
  by (simp add: cut_op_def trunc_real_ge_one)

lemma polyline_ops_cut_lines: "1 \<le> tw \<Longrightarrow> list_all is_cut_line (polyline_ops tw cur ps)"
  by (induction ps arbitrary: cur) (simp_all add: cut_op_is_cut_line)

lemma canvas_wf_new_canvas: "canvas_wf new_canvas"
  by (simp add: canvas_wf_def config_defs IPL_DEPTH_8U_def)

lemma canvas_wf_append:
  "canvas_wf img \<Longrightarrow> list_all is_cut_line ops \<Longrightarrow> canvas_wf (img\<lparr>strokes := strokes img @ ops\<rparr>)"
  by (simp add: canvas_wf_def)

lemma dev_inv_CV_sim: "dev_inv (CV_sim f)"
  by (simp add: dev_inv_def CV_sim_def)

lemma dev_inv_start: "dev_inv s \<Longrightarrow> dev_inv (snd (start s))"
  by (cases "image s") (auto simp: dev_inv_def start_allocates start_keeps canvas_wf_new_canvas)

lemma dev_inv_stop: "dev_inv s \<Longrightarrow> dev_inv (fst (snd (stop s d)))"
  by (auto simp: dev_inv_def stop_def split: option.split)

lemma dev_inv_move_to: "dev_inv s \<Longrightarrow> dev_inv (snd (move_to s p))"
  by (simp add: move_to_def dev_inv_def)

lemma dev_inv_cut_to: "dev_inv s \<Longrightarrow> dev_inv (snd (cut_to s p))"
  by (cases "running s"; cases "image s")
    (auto simp: dev_inv_def cut_to_running cut_stroke_eq canvas_wf_append cut_op_is_cut_line)

lemma dev_inv_curve_to: "dev_inv s \<Longrightarrow> dev_inv (snd (curve_to s p0 p1 p2 p3))"
  by (cases "running s"; cases "image s")
    (auto simp: dev_inv_def curve_to_running canvas_wf_append polyline_ops_cut_lines)

lemma dev_inv_set_tool_width: "dev_inv s \<Longrightarrow> dev_inv (snd (set_tool_width s w))"
proof (cases "0 < w")
  case True
  then show "dev_inv s \<Longrightarrow> ?thesis" by (simp add: dev_inv_def set_tool_width_pos)
next
  case False
  then show "dev_inv s \<Longrightarrow> ?thesis" by (simp add: set_tool_width_def)
qed

lemmas dev_inv_methods = dev_inv_start dev_inv_stop dev_inv_move_to dev_inv_cut_to
  dev_inv_curve_to dev_inv_set_tool_width

lemma exec_cmd_dev_inv: "dev_inv (dev m) \<Longrightarrow> dev_inv (dev (snd (exec_cmd m c)))"
  by (cases c) (simp_all add: dev_inv_methods case_prod_beta)

lemma reachable_dev_inv: "reachable m \<Longrightarrow> dev_inv (dev m)"
proof (induction rule: reachable.induct)
  case (init f d)
  show ?case by (simp add: dev_inv_CV_sim)
next
  case (step m c)
  from step.IH show ?case by (rule exec_cmd_dev_inv)
qed

lemma exec_cmd_output_filename:
  "output_filename (dev (snd (exec_cmd m c))) = output_filename (dev m)"
proof (cases c)
  case (CutTo p)
  then show ?thesis by (cases "running (dev m)") (simp_all add: cut_to_running)
next
  case (CurveTo p0 p1 p2 p3)
  then show ?thesis by (cases "running (dev m)") (simp_all add: curve_to_running)
qed (auto simp: start_def stop_def move_to_def set_tool_width_def Let_def case_prod_beta
      split: option.split)

lemma reachable_started: "reachable (snd (exec_cmd \<lparr>dev = CV_sim f, fs = d\<rparr> Start))"
  by (rule reachable.step [OF reachable.init])

lemma exec_cmd_started:
  "snd (exec_cmd \<lparr>dev = CV_sim f, fs = d\<rparr> Start) =
     \<lparr>dev = (CV_sim f)\<lparr>running := True, image := Some new_canvas\<rparr>, fs = d\<rparr>"
  by (simp add: start_def CV_sim_def)

subsection \<open>Properties of the driven device\<close>

text \<open>C4: in every reachable state a running device has a canvas, so \<^verbatim>\<open>get_image\<close>
  succeeds and returns the canvas with the position marker, and the \<^verbatim>\<open>image != NULL\<close>
  test of \<^verbatim>\<open>cut_to\<close> never skips a cut.\<close>

theorem reachable_running_has_canvas:
  "reachable m \<Longrightarrow> running (dev m) \<Longrightarrow>
   \<exists>img. image (dev m) = Some img \<and>
     get_image (dev m) = Inr (img\<lparr>strokes := strokes img @ position_marker (current_position (dev m))\<rparr>)"
  using reachable_dev_inv by (fastforce simp: dev_inv_def get_image_canvas)

theorem reachable_running_has_canvas_witness:
  "reachable (snd (exec_cmd \<lparr>dev = CV_sim ''out.png'', fs = \<lparr>files = Map.empty, writable = (\<lambda>_. True)\<rparr>\<rparr> Start)) \<and>
   running (dev (snd (exec_cmd \<lparr>dev = CV_sim ''out.png'', fs = \<lparr>files = Map.empty, writable = (\<lambda>_. True)\<rparr>\<rparr> Start))) \<and>
   (\<exists>img. get_image (dev (snd (exec_cmd \<lparr>dev = CV_sim ''out.png'', fs = \<lparr>files = Map.empty, writable = (\<lambda>_. True)\<rparr>\<rparr> Start))) = Inr img)"
proof -
  let ?m = "snd (exec_cmd \<lparr>dev = CV_sim ''out.png'', fs = \<lparr>files = Map.empty, writable = (\<lambda>_. True)\<rparr>\<rparr> Start)"
  have r: "reachable ?m" by (rule reachable_started)
  have u: "running (dev ?m)" by (simp only: exec_cmd_started) simp
  show ?thesis using r u reachable_running_has_canvas [OF r u] by blast
qed

text \<open>C11: in every reachable state the canvas, when there is one, is the
  600 by 600 zero-filled 8-bit single-channel image of \<^verbatim>\<open>start\<close>, and everything drawn on
  it is a grey anti-aliased line of \<^verbatim>\<open>cut_to\<close> at least one pixel thick.\<close>

theorem reachable_canvas_wf:
  "reachable m \<Longrightarrow> image (dev m) = Some img \<Longrightarrow>
   width img = 600 \<and> height img = 600 \<and> depth img = IPL_DEPTH_8U \<and> nChannels img = 1 \<and> zeroed img \<and>
   (\<forall>op \<in> set (strokes img). \<exists>p q t. op = Line p q (cvScalar 120 120 120) t CV_AA 0 \<and> 1 \<le> t)"
proof -
  assume "reachable m" and i: "image (dev m) = Some img"
  then have "canvas_wf img" using reachable_dev_inv by (fastforce simp: dev_inv_def)
  moreover have "is_cut_line op \<Longrightarrow> \<exists>p q t. op = Line p q (cvScalar 120 120 120) t CV_AA 0 \<and> 1 \<le> t" for op
    by (cases op) auto
  ultimately show ?thesis by (auto simp: canvas_wf_def config_defs list_all_iff)
qed

theorem reachable_canvas_wf_witness:
  "reachable (snd (exec_cmd \<lparr>dev = CV_sim ''out.png'', fs = \<lparr>files = Map.empty, writable = (\<lambda>_. True)\<rparr>\<rparr> Start)) \<and>
   image (dev (snd (exec_cmd \<lparr>dev = CV_sim ''out.png'', fs = \<lparr>files = Map.empty, writable = (\<lambda>_. True)\<rparr>\<rparr> Start))) = Some new_canvas \<and>
   width new_canvas = 600"
proof -
  let ?m = "snd (exec_cmd \<lparr>dev = CV_sim ''out.png'', fs = \<lparr>files = Map.empty, writable = (\<lambda>_. True)\<rparr>\<rparr> Start)"
  have r: "reachable ?m" by (rule reachable_started)
  have i: "image (dev ?m) = Some new_canvas" by (simp only: exec_cmd_started) simp
  show ?thesis using r i reachable_canvas_wf [OF r i] by blast
qed

text \<open>C15: in every reachable state the tool width is at least 1, and so is the
  thickness \<^verbatim>\<open>(int)tool_width\<close> every cut is drawn with.\<close>

theorem reachable_tool_width:
  "reachable m \<Longrightarrow> 1 \<le> tool_width (dev m) \<and> 1 \<le> trunc_real (tool_width (dev m))"
  using reachable_dev_inv by (auto simp: dev_inv_def trunc_real_ge_one)

theorem reachable_tool_width_witness:
  "reachable (snd (exec_cmd (snd (exec_cmd \<lparr>dev = CV_sim ''out.png'', fs = \<lparr>files = Map.empty, writable = (\<lambda>_. True)\<rparr>\<rparr> Start)) (SetToolWidth 0.001))) \<and>
   1 \<le> tool_width (dev (snd (exec_cmd (snd (exec_cmd \<lparr>dev = CV_sim ''out.png'', fs = \<lparr>files = Map.empty, writable = (\<lambda>_. True)\<rparr>\<rparr> Start)) (SetToolWidth 0.001))))"
proof -
  have r: "reachable (snd (exec_cmd (snd (exec_cmd \<lparr>dev = CV_sim ''out.png'', fs = \<lparr>files = Map.empty, writable = (\<lambda>_. True)\<rparr>\<rparr> Start)) (SetToolWidth 0.001)))"
    by (rule reachable.step [OF reachable_started])
  show ?thesis using r reachable_tool_width [OF r] by blast
qed


text \<open>C8: a call fails exactly when a motion command reaches a stopped device or the
  tool width is not positive, and a failed call changes neither the device nor the disk.\<close>

theorem exec_cmd_fails_iff:
  "(\<not> fst (exec_cmd m c) \<longleftrightarrow> (is_motion c \<and> \<not> running (dev m)) \<or> (\<exists>w. c = SetToolWidth w \<and> w \<le> 0)) \<and>
   (\<not> fst (exec_cmd m c) \<longrightarrow> snd (exec_cmd m c) = m)"
proof (cases c)
  case (SetToolWidth w)
  show ?thesis
  proof (cases "0 < w")
    case True
    with SetToolWidth show ?thesis by (simp add: set_tool_width_pos)
  next
    case False
    with SetToolWidth show ?thesis by (simp add: set_tool_width_def)
  qed
qed (auto simp: start_def stop_def move_to_def cut_to_def curve_to_def Let_def case_prod_beta
      split: option.split prod.split)

theorem exec_cmd_fails_iff_witness:
  "\<not> fst (exec_cmd \<lparr>dev = CV_sim ''out.png'', fs = \<lparr>files = Map.empty, writable = (\<lambda>_. True)\<rparr>\<rparr> (CutTo \<lparr>x = 1, y = 1\<rparr>))"
  using exec_cmd_fails_iff [of "\<lparr>dev = CV_sim ''out.png'', fs = \<lparr>files = Map.empty, writable = (\<lambda>_. True)\<rparr>\<rparr>"
      "CutTo \<lparr>x = 1, y = 1\<rparr>"]
  by (simp add: CV_sim_def)

text \<open>C20: only the motion commands move the tool: \<^verbatim>\<open>start\<close>, \<^verbatim>\<open>stop\<close> and
  \<^verbatim>\<open>set_tool_width\<close> leave the position as it is.\<close>

theorem exec_cmd_position_frame:
  "\<not> is_motion c \<Longrightarrow> current_position (dev (snd (exec_cmd m c))) = current_position (dev m)"
  by (cases c) (auto simp: start_def stop_def set_tool_width_def Let_def case_prod_beta split: option.split)

theorem exec_cmd_position_frame_witness:
  "\<not> is_motion Start \<and>
   current_position (dev (snd (exec_cmd \<lparr>dev = CV_sim ''out.png'', fs = \<lparr>files = Map.empty, writable = (\<lambda>_. True)\<rparr>\<rparr> Start))) =
     \<lparr>x = 0, y = 0\<rparr>"
  using exec_cmd_position_frame [of Start "\<lparr>dev = CV_sim ''out.png'', fs = \<lparr>files = Map.empty, writable = (\<lambda>_. True)\<rparr>\<rparr>"]
  by (simp add: CV_sim_def)

text \<open>C18: a motion command on a running device succeeds and leaves the tool at the raster
  image of its target (the end point \<open>p3\<close> for a curve).\<close>

theorem exec_cmd_motion_target:
  "is_motion c \<Longrightarrow> running (dev m) \<Longrightarrow>
   fst (exec_cmd m c) \<and> current_position (dev (snd (exec_cmd m c))) = convert_to_internal (motion_target c)"
  by (cases c) (simp_all add: move_to_running cut_to_running curve_to_running)

theorem exec_cmd_motion_target_witness:
  "is_motion (CutTo \<lparr>x = 1, y = 1\<rparr>) \<and>
   running (dev (snd (exec_cmd \<lparr>dev = CV_sim ''out.png'', fs = \<lparr>files = Map.empty, writable = (\<lambda>_. True)\<rparr>\<rparr> Start))) \<and>
   current_position (dev (snd (exec_cmd (snd (exec_cmd \<lparr>dev = CV_sim ''out.png'', fs = \<lparr>files = Map.empty, writable = (\<lambda>_. True)\<rparr>\<rparr> Start))
     (CutTo \<lparr>x = 1, y = 1\<rparr>)))) = \<lparr>x = 100, y = 100\<rparr>"
proof -
  let ?m = "snd (exec_cmd \<lparr>dev = CV_sim ''out.png'', fs = \<lparr>files = Map.empty, writable = (\<lambda>_. True)\<rparr>\<rparr> Start)"
  have c: "is_motion (CutTo \<lparr>x = 1, y = 1\<rparr>)" by simp
  have u: "running (dev ?m)" by (simp only: exec_cmd_started) simp
  show ?thesis using c u exec_cmd_motion_target [OF c u]
    by (simp add: convert_to_internal_def config_defs)
qed

text \<open>C21: only \<^verbatim>\<open>stop\<close> writes to the disk, only the device's output file, and
  what it writes from a state satisfying the invariant is a well-formed canvas.\<close>

theorem exec_cmd_writes_canvas:
  "dev_inv (dev m) \<Longrightarrow> files (fs (snd (exec_cmd m c))) f \<noteq> files (fs m) f \<Longrightarrow>
   c = Stop \<and> f = output_filename (dev m) \<and>
   (\<exists>img. files (fs (snd (exec_cmd m c))) f = Some img \<and> image (dev m) = Some img \<and> canvas_wf img)"
  by (cases c) (auto simp: stop_def dev_inv_def files_cvSaveImage case_prod_beta
      split: option.splits if_splits)

theorem exec_cmd_writes_canvas_witness:
  "dev_inv (dev (snd (exec_cmd \<lparr>dev = CV_sim ''out.png'', fs = \<lparr>files = Map.empty, writable = (\<lambda>_. True)\<rparr>\<rparr> Start))) \<and>
   files (fs (snd (exec_cmd (snd (exec_cmd \<lparr>dev = CV_sim ''out.png'', fs = \<lparr>files = Map.empty, writable = (\<lambda>_. True)\<rparr>\<rparr> Start)) Stop))) ''out.png'' \<noteq>
     files (fs (snd (exec_cmd \<lparr>dev = CV_sim ''out.png'', fs = \<lparr>files = Map.empty, writable = (\<lambda>_. True)\<rparr>\<rparr> Start))) ''out.png'' \<and>
   files (fs (snd (exec_cmd (snd (exec_cmd \<lparr>dev = CV_sim ''out.png'', fs = \<lparr>files = Map.empty, writable = (\<lambda>_. True)\<rparr>\<rparr> Start)) Stop))) ''out.png'' =
     Some new_canvas"
proof -
  let ?m = "snd (exec_cmd \<lparr>dev = CV_sim ''out.png'', fs = \<lparr>files = Map.empty, writable = (\<lambda>_. True)\<rparr>\<rparr> Start)"
  have i: "dev_inv (dev ?m)" using reachable_dev_inv [OF reachable_started] .
  have w: "files (fs (snd (exec_cmd ?m Stop))) ''out.png'' = Some new_canvas"
    by (simp only: exec_cmd_started) (simp add: stop_def CV_sim_def cvSaveImage_def)
  have n: "files (fs ?m) ''out.png'' = None" by (simp only: exec_cmd_started) simp
  have d: "files (fs (snd (exec_cmd ?m Stop))) ''out.png'' \<noteq> files (fs ?m) ''out.png''"
    using w n by simp
  show ?thesis using i d w exec_cmd_writes_canvas [OF i d] by blast
qed



text \<open>C31: a device made by the default constructor has an empty output file name, so
  no sequence of calls ever writes to the disk (its canvas is never saved, nor released by
  \<^verbatim>\<open>stop\<close>).\<close>

theorem default_device_never_saves:
  "fs (snd (run \<lparr>dev = CV_sim_default, fs = d\<rparr> cs)) = d"
proof -
  have "output_filename (dev m) = [] \<Longrightarrow> fs (snd (run m cs)) = fs m" for m
  proof (induction cs arbitrary: m)
    case Nil
    then show ?case by simp
  next
    case (Cons c cs)
    have "fs (snd (exec_cmd m c)) = fs m"
      using Cons.prems by (cases c) (simp_all add: stop_def case_prod_beta split: option.split)
    moreover have "output_filename (dev (snd (exec_cmd m c))) = []"
      using Cons.prems by (simp add: exec_cmd_output_filename)
    ultimately show ?case using Cons.IH by (simp add: case_prod_beta)
  qed
  then show ?thesis by (simp add: CV_sim_default_def)
qed

end
