(* ===== verification/Plotter.thy ===== *)
theory Plotter
  imports Machine
begin

text \<open>
  The abstract specification of the device, written from sections 4.1 and 4.2 of the
  specification, and the proof that \<^verbatim>\<open>CV_sim\<close> implements it.  The abstract plotter
  keeps exact raster coordinates and the cut segments themselves (start, end, stroke
  thickness in pixels) instead of an image; its operations return an error value
  (\<open>NotRunning\<close>, \<open>InvalidToolWidth\<close>) or the new plotter, and \<open>p_stop\<close> returns
  the artefact to persist.  A curve is the polyline through the Bernstein-form B\'ezier
  points at \<open>t = i / 20\<close>.  The simulation relation \<open>sim\<close> says that the
  device's flags, position and file name are the plotter's, that the thickness the device
  draws with is the plotter's pen, and that the device's image is the blank canvas with
  the plotter's segments drawn on it by \<^verbatim>\<open>cvLine\<close>.
\<close>

datatype plot_error = NotRunning | InvalidToolWidth

type_synonym segment = "xy \<times> xy \<times> int"

record plotter =
  on :: bool
  pos :: xy
  pen :: int
  sheet :: "segment list option"
  target :: string

definition to_raster :: "xy \<Rightarrow> xy" where
  "to_raster p = \<lparr>x = x p * 100, y = y p * 100\<rparr>"

definition valid_target :: "string \<Rightarrow> bool" where
  "valid_target f \<longleftrightarrow> 4 < length f"

definition plotter_init :: "string \<Rightarrow> plotter" where
  "plotter_init f = \<lparr>on = False, pos = \<lparr>x = 0, y = 0\<rparr>, pen = 1, sheet = None, target = f\<rparr>"

fun polyline :: "int \<Rightarrow> xy \<Rightarrow> xy list \<Rightarrow> segment list" where
  "polyline w cur [] = []"
| "polyline w cur (p # ps) = (cur, p, w) # polyline w p ps"

definition p_start :: "plotter \<Rightarrow> plotter" where
  "p_start a = a\<lparr>on := True, sheet := Some (case sheet a of None \<Rightarrow> [] | Some sg \<Rightarrow> sg)\<rparr>"

definition p_stop :: "plotter \<Rightarrow> plotter \<times> (string \<times> segment list) option" where
  "p_stop a =
     (case sheet a of
        Some sg \<Rightarrow>
          if valid_target (target a) then (a\<lparr>on := False, sheet := None\<rparr>, Some (target a, sg))
          else (a\<lparr>on := False\<rparr>, None)
      | None \<Rightarrow> (a\<lparr>on := False\<rparr>, None))"

definition p_move :: "plotter \<Rightarrow> xy \<Rightarrow> plot_error + plotter" where
  "p_move a p = (if \<not> on a then Inl NotRunning else Inr (a\<lparr>pos := to_raster p\<rparr>))"

definition p_cut :: "plotter \<Rightarrow> xy \<Rightarrow> plot_error + plotter" where
  "p_cut a p =
     (if \<not> on a then Inl NotRunning
      else Inr (a\<lparr>pos := to_raster p,
                  sheet := map_option (\<lambda>sg. sg @ [(pos a, to_raster p, pen a)]) (sheet a)\<rparr>))"

definition p_curve :: "plotter \<Rightarrow> xy \<Rightarrow> xy \<Rightarrow> xy \<Rightarrow> xy \<Rightarrow> plot_error + plotter" where
  "p_curve a p0 p1 p2 p3 =
     (if \<not> on a then Inl NotRunning
      else
        (let pts = map (\<lambda>i. to_raster (bezier p0 p1 p2 p3 (real i / 20))) [1..<21]
         in Inr (a\<lparr>pos := to_raster p3,
                    sheet := map_option (\<lambda>sg. sg @ polyline (pen a) (to_raster p0) pts) (sheet a)\<rparr>)))"

definition p_set_width :: "plotter \<Rightarrow> real \<Rightarrow> plot_error + plotter" where
  "p_set_width a w =
     (if w \<le> 0 then Inl InvalidToolWidth else Inr (a\<lparr>pen := max 1 (round (100 * \<bar>w\<bar>))\<rparr>))"

text \<open>How a segment appears on the canvas, and the canvas of a list of segments.\<close>

definition segment_op :: "segment \<Rightarrow> draw_op" where
  "segment_op sg =
     (case sg of (p, q, w) \<Rightarrow>
        Line (cvPoint (x p) (y p)) (cvPoint (x q) (y q)) (cvScalar 120 120 120) w CV_AA 0)"

definition sheet_image :: "segment list \<Rightarrow> iplimage" where
  "sheet_image sg = new_canvas\<lparr>strokes := map segment_op sg\<rparr>"

definition persist :: "(string \<times> segment list) option \<Rightarrow> disk \<Rightarrow> disk" where
  "persist art d = (case art of None \<Rightarrow> d | Some (f, sg) \<Rightarrow> cvSaveImage f (sheet_image sg) d)"

definition outcome :: "plot_error + plotter \<Rightarrow> plotter \<Rightarrow> disk \<Rightarrow> plot_error option \<times> plotter \<times> disk" where
  "outcome r a d = (case r of Inl e \<Rightarrow> (Some e, a, d) | Inr a' \<Rightarrow> (None, a', d))"

fun p_exec :: "plotter \<times> disk \<Rightarrow> cmd \<Rightarrow> plot_error option \<times> plotter \<times> disk" where
  "p_exec (a, d) Start = (None, p_start a, d)"
| "p_exec (a, d) Stop = (case p_stop a of (a', art) \<Rightarrow> (None, a', persist art d))"
| "p_exec (a, d) (MoveTo p) = outcome (p_move a p) a d"
| "p_exec (a, d) (CutTo p) = outcome (p_cut a p) a d"
| "p_exec (a, d) (CurveTo p0 p1 p2 p3) = outcome (p_curve a p0 p1 p2 p3) a d"
| "p_exec (a, d) (SetToolWidth w) = outcome (p_set_width a w) a d"

fun p_run :: "plotter \<times> disk \<Rightarrow> cmd list \<Rightarrow> plot_error option list \<times> plotter \<times> disk" where
  "p_run ad [] = ([], ad)"
| "p_run ad (c # cs) =
     (case p_exec ad c of (e, a', d') \<Rightarrow> (case p_run (a', d') cs of (es, ad'') \<Rightarrow> (e # es, ad'')))"

definition sim :: "plotter \<Rightarrow> cv_sim \<Rightarrow> bool" where
  "sim a s \<longleftrightarrow>
     running s = on a \<and> current_position s = pos a \<and> 1 \<le> tool_width s \<and>
     trunc_real (tool_width s) = pen a \<and> image s = map_option sheet_image (sheet a) \<and>
     output_filename s = target a"

text \<open>A concrete result matches an abstract one: an error is a failed call that changed
  nothing, a new plotter is a successful call whose new state it simulates.\<close>

definition matches :: "plot_error + plotter \<Rightarrow> cv_sim \<Rightarrow> cv_sim result \<Rightarrow> bool" where
  "matches r s res \<longleftrightarrow> (case r of Inl e \<Rightarrow> res = (False, s) | Inr a' \<Rightarrow> fst res \<and> sim a' (snd res))"

subsection \<open>Drawing the abstract segments\<close>

lemma to_raster_convert: "to_raster p = convert_to_internal p"
  by (simp add: to_raster_def convert_to_internal_def config_defs)

lemma cut_op_segment: "cut_op cur nxt tw = segment_op (cur, nxt, trunc_real tw)"
  by (simp add: cut_op_def segment_op_def)

lemma polyline_ops_segments: "polyline_ops tw cur ps = map segment_op (polyline (trunc_real tw) cur ps)"
  by (induction ps arbitrary: cur) (simp_all add: cut_op_segment)

lemma sheet_image_append:
  "sheet_image (sg @ sg') = (sheet_image sg)\<lparr>strokes := strokes (sheet_image sg) @ map segment_op sg'\<rparr>"
  by (simp add: sheet_image_def)

lemma sheet_image_Nil [simp]: "sheet_image [] = new_canvas"
  by (simp add: sheet_image_def)

subsection \<open>Each method implements its abstract operation\<close>

lemma sim_init: "sim (plotter_init f) (CV_sim f)"
  by (simp add: sim_def plotter_init_def CV_sim_def)

lemma sim_start:
  assumes "sim a s"
  shows "matches (Inr (p_start a)) s (start s)"
proof (cases "sheet a")
  case None
  with assms have "image s = None" by (simp add: sim_def)
  with None assms show ?thesis by (simp add: sim_def matches_def p_start_def start_allocates)
next
  case (Some sg)
  with assms have "image s = Some (sheet_image sg)" by (simp add: sim_def)
  with Some assms show ?thesis by (simp add: sim_def matches_def p_start_def start_keeps)
qed

lemma sim_stop:
  "sim a s \<Longrightarrow>
   fst (stop s d) \<and> sim (fst (p_stop a)) (fst (snd (stop s d))) \<and> snd (snd (stop s d)) = persist (snd (p_stop a)) d"
  by (cases "sheet a")
    (auto simp: sim_def p_stop_def stop_def valid_target_def persist_def split: option.split)

lemma sim_move_to: "sim a s \<Longrightarrow> matches (p_move a p) s (move_to s p)"
  by (simp add: sim_def matches_def p_move_def move_to_def to_raster_convert)

lemma sim_cut_to: "sim a s \<Longrightarrow> matches (p_cut a p) s (cut_to s p)"
  by (cases "sheet a")
    (auto simp: sim_def matches_def p_cut_def cut_to_running to_raster_convert cut_stroke_eq
      cut_op_segment sheet_image_append)

lemma sim_curve_to: "sim a s \<Longrightarrow> matches (p_curve a p0 p1 p2 p3) s (curve_to s p0 p1 p2 p3)"
  by (cases "sheet a")
    (auto simp: sim_def matches_def p_curve_def curve_to_running to_raster_convert curve_points_bezier
      polyline_ops_segments sheet_image_append comp_def)

lemma sim_set_tool_width: "sim a s \<Longrightarrow> matches (p_set_width a w) s (set_tool_width s w)"
proof (cases "0 < w")
  case True
  have "trunc_real (max 1 (100 * w + 1 / 2)) = max 1 (round (100 * w))"
    by (simp add: trunc_real_max_one round_def)
  with True show "sim a s \<Longrightarrow> ?thesis"
    by (simp add: sim_def matches_def p_set_width_def set_tool_width_pos)
next
  case False
  then show "sim a s \<Longrightarrow> ?thesis" by (simp add: matches_def p_set_width_def set_tool_width_def)
qed


subsection \<open>Commands and runs\<close>

lemma matches_outcome:
  "sim a s \<Longrightarrow> matches r s res \<Longrightarrow>
   (case outcome r a d of (err, a', d') \<Rightarrow> fst res = (err = None) \<and> sim a' (snd res) \<and> d' = d)"
  by (cases r) (auto simp: matches_def outcome_def)

lemma exec_sim:
  assumes "sim a (dev m)"
  shows "case p_exec (a, fs m) c of (err, a', d') \<Rightarrow>
           fst (exec_cmd m c) = (err = None) \<and> sim a' (dev (snd (exec_cmd m c))) \<and> fs (snd (exec_cmd m c)) = d'"
proof (cases c)
  case Start
  with sim_start [OF assms] show ?thesis by (simp add: matches_def case_prod_beta)
next
  case Stop
  with sim_stop [OF assms, of "fs m"] show ?thesis by (simp add: case_prod_beta)
next
  case (MoveTo p)
  with matches_outcome [OF assms sim_move_to [OF assms], of p "fs m"] show ?thesis
    by (simp add: case_prod_beta)
next
  case (CutTo p)
  with matches_outcome [OF assms sim_cut_to [OF assms], of p "fs m"] show ?thesis
    by (simp add: case_prod_beta)
next
  case (CurveTo p0 p1 p2 p3)
  with matches_outcome [OF assms sim_curve_to [OF assms], of p0 p1 p2 p3 "fs m"] show ?thesis
    by (simp add: case_prod_beta)
next
  case (SetToolWidth w)
  with matches_outcome [OF assms sim_set_tool_width [OF assms], of w "fs m"] show ?thesis
    by (simp add: case_prod_beta)
qed

lemma run_sim:
  "sim a (dev m) \<Longrightarrow>
   (case p_run (a, fs m) cs of (errs, a', d') \<Rightarrow>
      fst (run m cs) = map (\<lambda>e. e = None) errs \<and> sim a' (dev (snd (run m cs))) \<and> fs (snd (run m cs)) = d')"
proof (induction cs arbitrary: a m)
  case Nil
  then show ?case by simp
next
  case (Cons c cs)
  obtain err a1 d1 where pe: "p_exec (a, fs m) c = (err, a1, d1)" by (cases "p_exec (a, fs m) c")
  obtain r m1 where ce: "exec_cmd m c = (r, m1)" by (cases "exec_cmd m c")
  from exec_sim [OF Cons.prems, of c] pe ce
  have step: "r = (err = None)" "sim a1 (dev m1)" "fs m1 = d1" by simp_all
  from Cons.IH [OF step(2)] step(3) pe ce step(1) show ?case
    by (simp add: case_prod_beta)
qed

subsection \<open>The implementation refines the specification\<close>

text \<open>C1: from a freshly constructed device, any sequence of calls of the public methods
  returns, call by call, success exactly where the abstract plotter of the specification
  reports no error, and ends in a device that the abstract plotter simulates: same running
  flag, position and file name, drawing thickness equal to the abstract pen, and a canvas
  that is the blank canvas with exactly the abstract segments drawn; the disk is the one
  the abstract run persists its sheets to.\<close>

theorem run_refines_spec:
  "case p_run (plotter_init f, d) cs of (errs, a', d') \<Rightarrow>
     fst (run \<lparr>dev = CV_sim f, fs = d\<rparr> cs) = map (\<lambda>e. e = None) errs \<and>
     sim a' (dev (snd (run \<lparr>dev = CV_sim f, fs = d\<rparr> cs))) \<and> fs (snd (run \<lparr>dev = CV_sim f, fs = d\<rparr> cs)) = d'"
  using run_sim [of "plotter_init f" "\<lparr>dev = CV_sim f, fs = d\<rparr>" cs] by (simp add: sim_init)


theorem run_refines_spec_witness:
  "fst (run \<lparr>dev = CV_sim ''out.png'', fs = \<lparr>files = Map.empty, writable = (\<lambda>_. True)\<rparr>\<rparr>
          [CutTo \<lparr>x = 1, y = 1\<rparr>, Start, CutTo \<lparr>x = 1, y = 1\<rparr>, SetToolWidth 0]) = [False, True, True, False]"
proof -
  have "fst (p_run (plotter_init ''out.png'', \<lparr>files = Map.empty, writable = (\<lambda>_. True)\<rparr>)
          [CutTo \<lparr>x = 1, y = 1\<rparr>, Start, CutTo \<lparr>x = 1, y = 1\<rparr>, SetToolWidth 0]) = [Some NotRunning, None, None, Some InvalidToolWidth]"
    by (simp add: plotter_init_def p_start_def p_cut_def p_set_width_def outcome_def)
  then show ?thesis
    using run_refines_spec [of "''out.png''" "\<lparr>files = Map.empty, writable = (\<lambda>_. True)\<rparr>"
        "[CutTo \<lparr>x = 1, y = 1\<rparr>, Start, CutTo \<lparr>x = 1, y = 1\<rparr>, SetToolWidth 0]"]
    by (simp add: case_prod_beta)
qed


end
