(* ===== verification/Faults.thy ===== *)
theory Faults
  imports Machine
begin

text \<open>
  The same methods with the failures C++ and OpenCV add to them.  The model of
  \<open>Device\<close> and \<open>Curve\<close> lets every library call succeed; here each call that can fail
  does: \<^verbatim>\<open>cvLine\<close> and \<^verbatim>\<open>cvCircle\<close> raise \<^verbatim>\<open>cv::Exception\<close> when their
  assertions fail (\<open>cvLine_chk\<close>, \<open>cvCircle_chk\<close> of \<open>Canvas\<close>),
  \<^verbatim>\<open>cvCloneImage(NULL)\<close> raises \<^verbatim>\<open>CV_StsBadArg\<close>, \<^verbatim>\<open>cvSaveImage\<close> raises
  \<^verbatim>\<open>CV_StsError\<close> for a name no encoder matches, and the conversion of a
  \<^verbatim>\<open>double\<close> argument to \<^verbatim>\<open>int\<close> that does not fit is undefined behaviour,
  the value \<open>Int_overflow\<close>.  Nothing in \<^verbatim>\<open>device_cv_sim.cpp\<close> catches an
  exception: it leaves the method with the object as the method had left it at that point,
  which is the state returned beside the fault, and it ends a sequence of calls
  (\<open>run_x\<close>).  \<^verbatim>\<open>start\<close>, \<^verbatim>\<open>move_to\<close> and \<^verbatim>\<open>set_tool_width\<close> call
  nothing that fails (an allocation failure of \<^verbatim>\<open>cvCreateImage\<close> is not modelled)
  and are those of \<open>Device\<close>.

  The lemmas show that the two models agree on every run whose coordinates stay within
  \<open>2^31 / 100\<close> logical units and whose tool widths stay below 327.675 units, with an
  encoder for the output file; they characterise the faults outside these bounds.
\<close>

datatype fault = Cv_exception cv_error | Int_overflow

text \<open>The conversions of the \<^verbatim>\<open>double\<close> arguments of one call to \<^verbatim>\<open>int\<close> are
  all defined.\<close>

definition c_ints :: "real list \<Rightarrow> bool" where
  "c_ints rs \<longleftrightarrow> list_all c_int_representable rs"

text \<open>An OpenCV call whose exception leaves the method, followed by the rest of the
  method.\<close>

definition raising :: "cv_error + 'a \<Rightarrow> ('a \<Rightarrow> fault + 'b) \<Rightarrow> fault + 'b" where
  "raising r k = (case r of Inl e \<Rightarrow> Inl (Cv_exception e) | Inr v \<Rightarrow> k v)"

text \<open>The \<^verbatim>\<open>cvLine\<close> call of \<^verbatim>\<open>cut_to\<close>: the coordinates and
  \<^verbatim>\<open>(int)tool_width\<close> are converted, then \<^verbatim>\<open>cv::line\<close> asserts the thickness and
  the shift.\<close>

definition cut_stroke_x :: "xy \<Rightarrow> xy \<Rightarrow> real \<Rightarrow> iplimage \<Rightarrow> fault + iplimage" where
  "cut_stroke_x cur next_position tw img =
     (if c_ints [x cur, y cur, x next_position, y next_position, tw]
      then raising (cvLine_chk img (cvPoint (x cur) (y cur)) (cvPoint (x next_position) (y next_position))
                      (cvScalar 120 120 120) (trunc_real tw) CV_AA 0) Inr
      else Inl Int_overflow)"

text \<open>\<^verbatim>\<open>cut_to\<close>: an exception of the \<^verbatim>\<open>cvLine\<close> call leaves before
  \<^verbatim>\<open>current_position = next_position\<close>, so the object is as it was.\<close>

definition cut_to_x :: "cv_sim \<Rightarrow> xy \<Rightarrow> (fault + bool) \<times> cv_sim" where
  "cut_to_x s aPoint =
     (if \<not> running s then (Inr False, s)
      else
        (let next_position = convert_to_internal aPoint
         in (case image s of
               None \<Rightarrow> (Inr True, s\<lparr>current_position := next_position\<rparr>)
             | Some img \<Rightarrow>
                 (case cut_stroke_x (current_position s) next_position (tool_width s) img of
                    Inl f \<Rightarrow> (Inl f, s)
                  | Inr img' \<Rightarrow> (Inr True, s\<lparr>image := Some img', current_position := next_position\<rparr>)))))"

text \<open>The \<^verbatim>\<open>for\<close> loop of \<^verbatim>\<open>curve_to\<close>: the return value of each
  \<^verbatim>\<open>cut_to\<close> is ignored, an exception leaves the loop with the object as the failing
  cut left it.\<close>

function curve_loop_x :: "coeff \<Rightarrow> xy \<Rightarrow> nat \<Rightarrow> cv_sim \<Rightarrow> (fault + unit) \<times> cv_sim" where
  "curve_loop_x c p0 i s =
     (if i \<le> NUM_SECTIONS_PER_CURVE
      then (case cut_to_x s (curve_iter c p0 (curve_t i)) of
              (Inl f, s') \<Rightarrow> (Inl f, s')
            | (Inr _, s') \<Rightarrow> curve_loop_x c p0 (Suc i) s')
      else (Inr (), s))"
  by pat_completeness auto
termination
  by (relation "measure (\<lambda>(c, p0, i, s). Suc NUM_SECTIONS_PER_CURVE - i)") auto

declare curve_loop_x.simps [simp del]

text \<open>\<^verbatim>\<open>curve_to\<close>: \<^verbatim>\<open>move_to(p0)\<close> has already moved the tool when an
  exception leaves the loop.\<close>

definition curve_to_x :: "cv_sim \<Rightarrow> xy \<Rightarrow> xy \<Rightarrow> xy \<Rightarrow> xy \<Rightarrow> (fault + bool) \<times> cv_sim" where
  "curve_to_x s p0 p1 p2 p3 =
     (if \<not> running s then (Inr False, s)
      else
        (let c = curve_coeffs p0 p1 p2 p3;
             s1 = snd (move_to s p0)
         in (case curve_loop_x c p0 1 s1 of
               (Inl f, s') \<Rightarrow> (Inl f, s')
             | (Inr _, s') \<Rightarrow> (Inr True, s'))))"

text \<open>\<^verbatim>\<open>stop\<close>: an exception of \<^verbatim>\<open>cvSaveImage\<close> leaves before
  \<^verbatim>\<open>cvReleaseImage\<close> and before \<^verbatim>\<open>running = false\<close>.\<close>

definition stop_x :: "(string \<Rightarrow> bool) \<Rightarrow> cv_sim \<Rightarrow> disk \<Rightarrow> (fault + bool) \<times> cv_sim \<times> disk" where
  "stop_x has_encoder s d =
     (case image s of
        Some img \<Rightarrow>
          if 4 < length (output_filename s)
          then (case cvSaveImage_chk has_encoder (output_filename s) img d of
                  Inl e \<Rightarrow> (Inl (Cv_exception e), s, d)
                | Inr d' \<Rightarrow> (Inr True, s\<lparr>image := cvReleaseImage (image s), running := False\<rparr>, d'))
          else (Inr True, s\<lparr>running := False\<rparr>, d)
      | None \<Rightarrow> (Inr True, s\<lparr>running := False\<rparr>, d))"

text \<open>\<^verbatim>\<open>get_image\<close>: the clone, then the circle and the two lines of the
  marker, each with its arguments converted and asserted.\<close>

definition get_image_x :: "cv_sim \<Rightarrow> fault + iplimage" where
  "get_image_x s =
     raising (cvCloneImage (image s)) (\<lambda>new_image.
       (let rgb = CvScalar 250 250 250 0;
            cp = current_position s
        in if c_ints [x cp, y cp, x cp + 5, y cp + 5, x cp - 5, y cp - 5]
           then raising (cvCircle_chk new_image (cvPoint (x cp) (y cp)) 10 rgb 2 CV_LINE_8 0) (\<lambda>i1.
                raising (cvLine_chk i1 (cvPoint (x cp + 5) (y cp + 5)) (cvPoint (x cp - 5) (y cp - 5))
                           rgb 1 CV_LINE_8 0) (\<lambda>i2.
                raising (cvLine_chk i2 (cvPoint (x cp + 5) (y cp - 5)) (cvPoint (x cp - 5) (y cp + 5))
                           rgb 1 CV_LINE_8 0) Inr))
           else Inl Int_overflow))"

text \<open>One call and a sequence of calls; the first exception ends the sequence.\<close>

fun exec_cmd_x :: "(string \<Rightarrow> bool) \<Rightarrow> machine \<Rightarrow> cmd \<Rightarrow> (fault + bool) \<times> machine" where
  "exec_cmd_x enc m Stop = (case stop_x enc (dev m) (fs m) of (r, s, d) \<Rightarrow> (r, m\<lparr>dev := s, fs := d\<rparr>))"
| "exec_cmd_x enc m (CutTo p) = (case cut_to_x (dev m) p of (r, s) \<Rightarrow> (r, m\<lparr>dev := s\<rparr>))"
| "exec_cmd_x enc m (CurveTo p0 p1 p2 p3) =
     (case curve_to_x (dev m) p0 p1 p2 p3 of (r, s) \<Rightarrow> (r, m\<lparr>dev := s\<rparr>))"
| "exec_cmd_x enc m c = apfst Inr (exec_cmd m c)"

fun run_x :: "(string \<Rightarrow> bool) \<Rightarrow> machine \<Rightarrow> cmd list \<Rightarrow> (fault + bool list) \<times> machine" where
  "run_x enc m [] = (Inr [], m)"
| "run_x enc m (c # cs) =
     (case exec_cmd_x enc m c of
        (Inl f, m1) \<Rightarrow> (Inl f, m1)
      | (Inr r, m1) \<Rightarrow>
          (case run_x enc m1 cs of
             (Inl f, m2) \<Rightarrow> (Inl f, m2)
           | (Inr rs, m2) \<Rightarrow> (Inr (r # rs), m2)))"

text \<open>The bounds under which no call fails: a logical point whose raster image fits a
  C \<^verbatim>\<open>int\<close> with room for the marker of \<^verbatim>\<open>get_image\<close>, a command built from such
  points and a tool width whose stroke OpenCV accepts, and a device state whose position
  and stroke thickness are within range.\<close>

definition pt_bounded :: "xy \<Rightarrow> bool" where
  "pt_bounded p \<longleftrightarrow> \<bar>x p\<bar> \<le> 21474836 \<and> \<bar>y p\<bar> \<le> 21474836"

fun cmd_bounded :: "cmd \<Rightarrow> bool" where
  "cmd_bounded (MoveTo p) = pt_bounded p"
| "cmd_bounded (CutTo p) = pt_bounded p"
| "cmd_bounded (CurveTo p0 p1 p2 p3) = (pt_bounded p0 \<and> pt_bounded p1 \<and> pt_bounded p2 \<and> pt_bounded p3)"
| "cmd_bounded (SetToolWidth w) = (w < 327.675)"
| "cmd_bounded Start = True"
| "cmd_bounded Stop = True"

definition state_bounded :: "cv_sim \<Rightarrow> bool" where
  "state_bounded s \<longleftrightarrow>
     \<bar>x (current_position s)\<bar> \<le> 2147483600 \<and> \<bar>y (current_position s)\<bar> \<le> 2147483600 \<and>
     1 \<le> tool_width s \<and> tool_width s < 32768"

declare cut_stroke_x_def [device_defs] cut_to_x_def [device_defs] curve_to_x_def [device_defs]
  stop_x_def [device_defs] get_image_x_def [device_defs] curve_loop_x.simps [device_defs] c_ints_def [device_defs]
  raising_def [device_defs]

subsection \<open>Faults of single calls\<close>

lemma raising_Inl [simp]: "raising (Inl e) k = Inl (Cv_exception e)"
  by (simp add: raising_def)

lemma raising_Inr [simp]: "raising (Inr v) k = k v"
  by (simp add: raising_def)

lemma c_ints_simps [simp]: "c_ints [] = True" "c_ints (r # rs) \<longleftrightarrow> c_int_representable r \<and> c_ints rs"
  by (simp_all add: c_ints_def)

lemma cut_to_x_stopped [simp]: "\<not> running s \<Longrightarrow> cut_to_x s p = (Inr False, s)"
  by (simp add: cut_to_x_def)

subsection \<open>Runs within the bounds raise nothing\<close>

lemma representable_raster: "\<bar>r\<bar> \<le> 2147483600 \<Longrightarrow> c_int_representable r"
  by (simp add: c_int_representable_def abs_le_iff)

lemma pt_bounded_convert:
  "pt_bounded p \<Longrightarrow> \<bar>100 * x p\<bar> \<le> 2147483600 \<and> \<bar>100 * y p\<bar> \<le> 2147483600"
  by (simp add: pt_bounded_def abs_mult)

lemma representable_width: "1 \<le> tw \<Longrightarrow> tw < 32768 \<Longrightarrow> c_int_representable tw"
  by (simp add: c_int_representable_def)

lemma thickness_checks: "1 \<le> tw \<Longrightarrow> tw < 32768 \<Longrightarrow> cvLine_checks (trunc_real tw) 0"
  by (simp add: cvLine_checks_def MAX_THICKNESS_def XY_SHIFT_def floor_less_iff)

lemma cut_stroke_x_ok:
  "c_ints [x cur, y cur, x nxt, y nxt, tw] \<Longrightarrow> cvLine_checks (trunc_real tw) 0 \<Longrightarrow>
   cut_stroke_x cur nxt tw img = Inr (cut_stroke cur nxt tw img)"
  unfolding cut_stroke_x_def cut_stroke_def by simp

lemma cut_to_x_bounded:
  "state_bounded s \<Longrightarrow> pt_bounded p \<Longrightarrow> cut_to_x s p = apfst Inr (cut_to s p)"
proof (cases "running s")
  case True
  assume b: "state_bounded s" and p: "pt_bounded p"
  have "c_ints [x (current_position s), y (current_position s), x (convert_to_internal p),
      y (convert_to_internal p), tool_width s]"
    using b pt_bounded_convert [OF p] by (simp add: state_bounded_def representable_raster representable_width)
  moreover have "cvLine_checks (trunc_real (tool_width s)) 0"
    using b unfolding state_bounded_def by (intro thickness_checks) simp_all
  ultimately show ?thesis using True
    by (cases "image s") (simp_all add: cut_to_x_def cut_to_running cut_stroke_x_ok Let_def)
qed simp

lemma state_bounded_cut_to:
  "state_bounded s \<Longrightarrow> pt_bounded p \<Longrightarrow> state_bounded (snd (cut_to s p))"
  by (cases "running s") (simp_all add: cut_to_running state_bounded_def pt_bounded_convert)


lemma pt_bounded_bezier:
  assumes "pt_bounded p0" "pt_bounded p1" "pt_bounded p2" "pt_bounded p3" "0 \<le> t" "t \<le> 1"
  shows "pt_bounded (bezier p0 p1 p2 p3 t)"
proof -
  note h = bezier_in_hull [OF assms(5,6), of p0 p1 p2 p3]
  from assms(1-4) show ?thesis
    unfolding pt_bounded_def abs_le_iff
    using h by (simp add: min.bounded_iff max.bounded_iff) linarith
qed

lemma pt_bounded_curve_iter:
  "pt_bounded p0 \<Longrightarrow> pt_bounded p1 \<Longrightarrow> pt_bounded p2 \<Longrightarrow> pt_bounded p3 \<Longrightarrow> j \<le> NUM_SECTIONS_PER_CURVE \<Longrightarrow>
   pt_bounded (curve_iter (curve_coeffs p0 p1 p2 p3) p0 (curve_t j))"
  unfolding curve_iter_bezier
  by (rule pt_bounded_bezier) (simp_all add: curve_t_def NUM_SECTIONS_PER_CURVE_def)

lemma curve_loop_x_bounded:
  "state_bounded s \<Longrightarrow> (\<And>j. j \<le> NUM_SECTIONS_PER_CURVE \<Longrightarrow> pt_bounded (curve_iter c p0 (curve_t j))) \<Longrightarrow>
   curve_loop_x c p0 i s = (Inr (), curve_loop c p0 i s)"
proof (induction c p0 i s rule: curve_loop.induct)
  case (1 c p0 i s)
  show ?case
  proof (cases "i \<le> NUM_SECTIONS_PER_CURVE")
    case True
    let ?q = "curve_iter c p0 (curve_t i)"
    have q: "pt_bounded ?q" using True "1.prems"(2) by blast
    have "cut_to_x s ?q = (Inr (fst (cut_to s ?q)), snd (cut_to s ?q))"
      using cut_to_x_bounded [OF "1.prems"(1) q] by (simp add: apfst_def map_prod_def split: prod.split)
    moreover have "curve_loop_x c p0 (Suc i) (snd (cut_to s ?q)) = (Inr (), curve_loop c p0 (Suc i) (snd (cut_to s ?q)))"
      using True state_bounded_cut_to [OF "1.prems"(1) q] "1.prems"(2) by (rule "1.IH")
    ultimately show ?thesis using True
      by (simp add: curve_loop_x.simps [of c p0 i s] curve_loop.simps [of c p0 i s])
  next
    case False
    then show ?thesis by (simp add: curve_loop_x.simps [of c p0 i s] curve_loop.simps [of c p0 i s])
  qed
qed

lemma state_bounded_move_to:
  "state_bounded s \<Longrightarrow> pt_bounded p \<Longrightarrow> state_bounded (snd (move_to s p))"
  by (simp add: move_to_def state_bounded_def pt_bounded_convert)

lemma curve_to_x_bounded:
  assumes "state_bounded s" "pt_bounded p0" "pt_bounded p1" "pt_bounded p2" "pt_bounded p3"
  shows "curve_to_x s p0 p1 p2 p3 = apfst Inr (curve_to s p0 p1 p2 p3)"
proof (cases "running s")
  case True
  have "curve_loop_x (curve_coeffs p0 p1 p2 p3) p0 1 (snd (move_to s p0)) =
      (Inr (), curve_loop (curve_coeffs p0 p1 p2 p3) p0 1 (snd (move_to s p0)))"
    using assms by (intro curve_loop_x_bounded state_bounded_move_to pt_bounded_curve_iter)
  with True show ?thesis by (simp add: curve_to_x_def curve_to_def)
qed (simp add: curve_to_x_def)

lemma state_bounded_curve_to:
  "state_bounded s \<Longrightarrow> pt_bounded p3 \<Longrightarrow> state_bounded (snd (curve_to s p0 p1 p2 p3))"
  by (cases "running s") (simp_all add: curve_to_running state_bounded_def pt_bounded_convert)

lemma stop_x_encoder:
  "(4 < length (output_filename s) \<longrightarrow> has_encoder (output_filename s)) \<Longrightarrow>
   stop_x has_encoder s d = apfst Inr (stop s d)"
  by (simp add: stop_x_def stop_def cvSaveImage_chk_def split: option.split)

lemma state_bounded_set_tool_width:
  "state_bounded s \<Longrightarrow> w < 327.675 \<Longrightarrow> state_bounded (snd (set_tool_width s w))"
proof (cases "0 < w")
  case True
  then show "state_bounded s \<Longrightarrow> w < 327.675 \<Longrightarrow> ?thesis"
    by (simp add: set_tool_width_pos state_bounded_def)
qed (simp add: set_tool_width_def)

lemma state_bounded_exec_cmd:
  "state_bounded (dev m) \<Longrightarrow> cmd_bounded c \<Longrightarrow> state_bounded (dev (snd (exec_cmd m c)))"
proof (cases c)
  case Start
  then show "state_bounded (dev m) \<Longrightarrow> ?thesis" by (simp add: start_def state_bounded_def)
next
  case Stop
  then show "state_bounded (dev m) \<Longrightarrow> ?thesis"
    by (simp add: stop_def state_bounded_def case_prod_beta split: option.split)
qed (simp_all add: state_bounded_cut_to state_bounded_curve_to state_bounded_move_to
       state_bounded_set_tool_width case_prod_beta)

lemma exec_cmd_x_bounded:
  "state_bounded (dev m) \<Longrightarrow> cmd_bounded c \<Longrightarrow>
   (4 < length (output_filename (dev m)) \<longrightarrow> enc (output_filename (dev m))) \<Longrightarrow>
   exec_cmd_x enc m c = apfst Inr (exec_cmd m c)"
  by (cases c)
    (simp_all add: cut_to_x_bounded curve_to_x_bounded stop_x_encoder case_prod_beta apfst_def map_prod_def)

lemma run_x_bounded:
  "state_bounded (dev m) \<Longrightarrow> list_all cmd_bounded cs \<Longrightarrow>
   (4 < length (output_filename (dev m)) \<longrightarrow> enc (output_filename (dev m))) \<Longrightarrow>
   run_x enc m cs = apfst Inr (run m cs)"
proof (induction cs arbitrary: m)
  case Nil
  then show ?case by simp
next
  case (Cons c cs)
  from Cons.prems have c: "cmd_bounded c" and cs: "list_all cmd_bounded cs" by simp_all
  note step = exec_cmd_x_bounded [of m c enc, OF Cons.prems(1) c Cons.prems(3)]
  have "run_x enc (snd (exec_cmd m c)) cs = apfst Inr (run (snd (exec_cmd m c)) cs)"
    using state_bounded_exec_cmd [OF Cons.prems(1) c] cs Cons.prems(3)
    by (intro Cons.IH) (simp_all add: exec_cmd_output_filename)
  with step show ?case by (simp add: case_prod_beta apfst_def map_prod_def)
qed


subsection \<open>A fault inside \<open>curve_to\<close>\<close>

lemma cut_to_x_Inr: "cut_to_x s p = (Inr b, s') \<Longrightarrow> cut_to s p = (b, s')"
  by (cases "running s"; cases "image s")
    (auto simp: cut_to_x_def cut_to_running cut_stroke_x_def cvLine_chk_Inr_iff cut_stroke_def raising_def
      Let_def split: if_splits sum.splits)

lemma cut_to_x_Inl: "cut_to_x s p = (Inl f, s') \<Longrightarrow> s' = s"
  by (cases "running s"; cases "image s") (auto simp: cut_to_x_def Let_def split: sum.splits)

lemma curve_loop_x_prefix:
  "fst (curve_loop_x c p0 i s) = Inl f \<Longrightarrow>
   \<exists>k. i \<le> k \<and> k \<le> NUM_SECTIONS_PER_CURVE \<and>
     snd (curve_loop_x c p0 i s) = foldl (\<lambda>s j. snd (cut_to s (curve_iter c p0 (curve_t j)))) s [i..<k]"
proof (induction c p0 i s rule: curve_loop.induct)
  case (1 c p0 i s)
  let ?q = "curve_iter c p0 (curve_t i)"
  show ?case
  proof (cases "i \<le> NUM_SECTIONS_PER_CURVE")
    case True
    show ?thesis
    proof (cases "cut_to_x s ?q")
      case (Pair r s')
      show ?thesis
      proof (cases r)
        case (Inl f')
        then have "s' = s" using Pair cut_to_x_Inl by blast
        with True Pair Inl show ?thesis by (intro exI [of _ i]) (simp add: curve_loop_x.simps [of c p0 i s])
      next
        case (Inr b)
        then have cut: "cut_to s ?q = (b, s')" using Pair cut_to_x_Inr by blast
        have loop: "curve_loop_x c p0 i s = curve_loop_x c p0 (Suc i) s'"
          using True Pair Inr by (simp add: curve_loop_x.simps [of c p0 i s])
        then have "fst (curve_loop_x c p0 (Suc i) (snd (cut_to s ?q))) = Inl f"
          using "1.prems" cut by simp
        from "1.IH" [OF True this] obtain k where
          k: "Suc i \<le> k" "k \<le> NUM_SECTIONS_PER_CURVE"
             "snd (curve_loop_x c p0 (Suc i) s') = foldl (\<lambda>s j. snd (cut_to s (curve_iter c p0 (curve_t j)))) s' [Suc i..<k]"
          using cut by auto
        have "[i..<k] = i # [Suc i..<k]" using k(1) by (simp add: upt_conv_Cons)
        with k loop cut show ?thesis by (intro exI [of _ k]) simp
      qed
    qed
  next
    case False
    then show ?thesis using "1.prems" by (simp add: curve_loop_x.simps [of c p0 i s])
  qed
qed

subsection \<open>Properties of the fault-aware methods\<close>

text \<open>C9: from a constructed device, a sequence of calls whose points lie within
  21474836 logical units of the origin on each axis and whose tool widths are below
  327.675 units, on a device whose output file name has an encoder when it is long enough
  to be saved, raises no exception and converts no \<^verbatim>\<open>double\<close> out of the range of
  \<^verbatim>\<open>int\<close>: every call returns what the fault-free model returns, and the device and
  the disk end as there.\<close>

theorem run_x_fault_free:
  "list_all cmd_bounded cs \<Longrightarrow> (4 < length f \<longrightarrow> enc f) \<Longrightarrow>
   run_x enc \<lparr>dev = CV_sim f, fs = d\<rparr> cs = apfst Inr (run \<lparr>dev = CV_sim f, fs = d\<rparr> cs)"
  by (rule run_x_bounded) (simp_all add: state_bounded_def CV_sim_def)

theorem run_x_fault_free_witness:
  "run_x (\<lambda>n. n = ''out.png'') \<lparr>dev = CV_sim ''out.png'', fs = \<lparr>files = Map.empty, writable = (\<lambda>_. True)\<rparr>\<rparr>
     [Start, CutTo \<lparr>x = 1, y = 1\<rparr>, Stop] =
   apfst Inr (run \<lparr>dev = CV_sim ''out.png'', fs = \<lparr>files = Map.empty, writable = (\<lambda>_. True)\<rparr>\<rparr>
     [Start, CutTo \<lparr>x = 1, y = 1\<rparr>, Stop])"
  by (rule run_x_fault_free) (simp_all add: pt_bounded_def)

text \<open>C36: on a running device with a canvas, a tool width of at least 1 and arguments
  that convert to \<^verbatim>\<open>int\<close>, \<^verbatim>\<open>cut_to\<close> raises the assertion error of
  \<^verbatim>\<open>cv::line\<close> exactly when the tool width is 32768 or more, so that the thickness
  \<^verbatim>\<open>(int)tool_width\<close> exceeds \<^verbatim>\<open>MAX_THICKNESS\<close>; it then changes nothing.
  Otherwise it is the cut of the fault-free model.\<close>

theorem cut_to_x_thickness_assert:
  "running s \<Longrightarrow> image s = Some img \<Longrightarrow> 1 \<le> tool_width s \<Longrightarrow>
   c_ints [x (current_position s), y (current_position s), x (convert_to_internal p), y (convert_to_internal p),
     tool_width s] \<Longrightarrow>
   cut_to_x s p = (if tool_width s < 32768 then apfst Inr (cut_to s p) else (Inl (Cv_exception CV_StsAssert), s))"
  by (auto simp: cut_to_x_def cut_to_running cut_stroke_x_def cut_stroke_def cvLine_chk_def cvLine_checks_def
      MAX_THICKNESS_def XY_SHIFT_def floor_less_iff le_floor_iff Let_def simp del: convert_x convert_y)


theorem cut_to_x_thickness_assert_witness:
  "cut_to_x (snd (set_tool_width (snd (start (CV_sim ''cut.png''))) 400)) \<lparr>x = 1, y = 1\<rparr> =
     (Inl (Cv_exception CV_StsAssert), snd (set_tool_width (snd (start (CV_sim ''cut.png''))) 400))"
proof -
  let ?s = "snd (set_tool_width (snd (start (CV_sim ''cut.png''))) 400)"
  have r: "running ?s" and i: "image ?s = Some new_canvas" and w: "1 \<le> tool_width ?s"
    by (simp_all add: start_def CV_sim_def set_tool_width_pos)
  have c: "c_ints [x (current_position ?s), y (current_position ?s), x (convert_to_internal \<lparr>x = 1, y = 1\<rparr>),
      y (convert_to_internal \<lparr>x = 1, y = 1\<rparr>), tool_width ?s]"
    by (simp add: start_def CV_sim_def set_tool_width_pos c_int_representable_def)
  show ?thesis using cut_to_x_thickness_assert [OF r i w c] by (simp add: start_def set_tool_width_pos)
qed


text \<open>C10: when \<^verbatim>\<open>curve_to\<close> on a running device raises, it does so after
  \<^verbatim>\<open>move_to(p0)\<close> and after some of its cuts: the device is left as the move and
  the first \<open>k < 20\<close> cuts of the curve leave it, running, with those segments on the
  canvas.\<close>

theorem curve_to_x_fault_prefix:
  "running s \<Longrightarrow> fst (curve_to_x s p0 p1 p2 p3) = Inl f \<Longrightarrow>
   \<exists>k < NUM_SECTIONS_PER_CURVE.
     snd (curve_to_x s p0 p1 p2 p3) = cut_path (snd (move_to s p0)) (take k (curve_points p0 p1 p2 p3))"
proof -
  assume r: "running s" and f: "fst (curve_to_x s p0 p1 p2 p3) = Inl f"
  let ?c = "curve_coeffs p0 p1 p2 p3" and ?s1 = "snd (move_to s p0)"
  have e: "snd (curve_to_x s p0 p1 p2 p3) = snd (curve_loop_x ?c p0 1 ?s1)"
    and f1: "fst (curve_loop_x ?c p0 1 ?s1) = Inl f"
    using r f by (auto simp: curve_to_x_def split: prod.splits sum.splits)
  from f1 obtain k where k: "1 \<le> k" "k \<le> NUM_SECTIONS_PER_CURVE"
    "snd (curve_loop_x ?c p0 1 ?s1) = foldl (\<lambda>s j. snd (cut_to s (curve_iter ?c p0 (curve_t j)))) ?s1 [1..<k]"
    using curve_loop_x_prefix [of ?c p0 1 ?s1 f] by auto
  have "take (k - 1) (curve_points p0 p1 p2 p3) = map (\<lambda>j. curve_iter ?c p0 (curve_t j)) [1..<k]"
    using k(1,2) by (simp add: curve_points_def take_map take_upt)
  then have "snd (curve_to_x s p0 p1 p2 p3) = cut_path ?s1 (take (k - 1) (curve_points p0 p1 p2 p3))"
    using e k(3) by (simp add: cut_path_def foldl_map)
  moreover have "k - 1 < NUM_SECTIONS_PER_CURVE" using k(1,2) by simp
  ultimately show ?thesis by blast
qed

theorem curve_to_x_fault_prefix_witness:
  "running (snd (set_tool_width (snd (start (CV_sim ''cut.png''))) 400)) \<and>
   fst (curve_to_x (snd (set_tool_width (snd (start (CV_sim ''cut.png''))) 400))
     \<lparr>x = 1, y = 0\<rparr> \<lparr>x = 1, y = 1\<rparr> \<lparr>x = 2, y = 1\<rparr> \<lparr>x = 2, y = 2\<rparr>) = Inl (Cv_exception CV_StsAssert) \<and>
   (\<exists>k < NUM_SECTIONS_PER_CURVE.
     snd (curve_to_x (snd (set_tool_width (snd (start (CV_sim ''cut.png''))) 400))
       \<lparr>x = 1, y = 0\<rparr> \<lparr>x = 1, y = 1\<rparr> \<lparr>x = 2, y = 1\<rparr> \<lparr>x = 2, y = 2\<rparr>) =
     cut_path (snd (move_to (snd (set_tool_width (snd (start (CV_sim ''cut.png''))) 400)) \<lparr>x = 1, y = 0\<rparr>))
       (take k (curve_points \<lparr>x = 1, y = 0\<rparr> \<lparr>x = 1, y = 1\<rparr> \<lparr>x = 2, y = 1\<rparr> \<lparr>x = 2, y = 2\<rparr>)))"
proof -
  let ?s = "snd (set_tool_width (snd (start (CV_sim ''cut.png''))) 400)"
  have r: "running ?s" by (simp add: start_def set_tool_width_pos)
  have f: "fst (curve_to_x ?s \<lparr>x = 1, y = 0\<rparr> \<lparr>x = 1, y = 1\<rparr> \<lparr>x = 2, y = 1\<rparr> \<lparr>x = 2, y = 2\<rparr>) =
      Inl (Cv_exception CV_StsAssert)"
    by (simp add: start_def CV_sim_def set_tool_width_pos curve_to_x_def curve_loop_x.simps [of _ _ 1] curve_loop_x.simps [of _ _ "Suc 0"]
        cut_to_x_def cut_stroke_x_def cvLine_chk_def cvLine_checks_def MAX_THICKNESS_def XY_SHIFT_def
        c_int_representable_def move_to_def curve_iter_def curve_coeffs_def curve_t_def
        NUM_SECTIONS_PER_CURVE_def Let_def)
  show ?thesis using r f curve_to_x_fault_prefix [OF r f] by blast
qed

text \<open>C37: \<^verbatim>\<open>stop\<close> on a device with a canvas and an output file name longer
  than four characters for which the library has no encoder raises the
  \<^verbatim>\<open>CV_StsError\<close> of \<^verbatim>\<open>cvSaveImage\<close>: the device stays as it was, running
  and with its canvas, and the disk is unchanged.\<close>

theorem stop_x_no_encoder:
  "image s = Some img \<Longrightarrow> 4 < length (output_filename s) \<Longrightarrow> \<not> has_encoder (output_filename s) \<Longrightarrow>
   stop_x has_encoder s d = (Inl (Cv_exception CV_StsError), s, d)"
  by (simp add: stop_x_def cvSaveImage_chk_def)

theorem stop_x_no_encoder_witness:
  "running (snd (start (CV_sim ''output''))) \<and>
   stop_x (\<lambda>n. n = ''output.png'') (snd (start (CV_sim ''output''))) \<lparr>files = Map.empty, writable = (\<lambda>_. True)\<rparr> =
     (Inl (Cv_exception CV_StsError), snd (start (CV_sim ''output'')), \<lparr>files = Map.empty, writable = (\<lambda>_. True)\<rparr>)"
proof -
  have i: "image (snd (start (CV_sim ''output''))) = Some new_canvas" by (simp add: start_def CV_sim_def)
  have l: "4 < length (output_filename (snd (start (CV_sim ''output''))))" by (simp add: start_def CV_sim_def)
  have e: "\<not> (\<lambda>n. n = ''output.png'') (output_filename (snd (start (CV_sim ''output''))))"
    by (simp add: start_def CV_sim_def)
  show ?thesis using stop_x_no_encoder [where has_encoder = "\<lambda>n. n = ''output.png''", OF i l e] by (simp add: start_def)
qed



end
