(* ===== verification/Spec2Isabelle.thy ===== *)
theory Spec2Isabelle
  imports Plotter Faults
begin

text \<open>
  \<^bold>\<open>Verification of the OpenCV cutter simulator of libcutter.\<close>
  The repository's one source file, \<^verbatim>\<open>src/lib/device_cv_sim.cpp\<close>, implements
  \<^verbatim>\<open>Device::CV_sim\<close>, a virtual xy cutter: \<^verbatim>\<open>start\<close>/\<^verbatim>\<open>stop\<close> switch it
  on and off, \<^verbatim>\<open>move_to\<close>, \<^verbatim>\<open>cut_to\<close> and \<^verbatim>\<open>curve_to\<close> move the tool
  (a cut draws a grey line on an OpenCV canvas, a curve is twenty cuts along a cubic
  B\'ezier curve), \<^verbatim>\<open>set_tool_width\<close> sets the stroke thickness, \<^verbatim>\<open>stop\<close> saves
  the canvas with \<^verbatim>\<open>cvSaveImage\<close>, and \<^verbatim>\<open>get_image\<close> returns a copy of the canvas
  with a marker at the tool.  Coordinates arrive in inches and are scaled by
  \<^verbatim>\<open>convert_to_internal\<close> to pixels of a 600 by 600 canvas.

  \<^bold>\<open>Theories.\<close>
  \<^item> \<open>Prelude\<close>: the result type \<open>bool \<times> state\<close> of the methods, the C++
    truncation of a \<^verbatim>\<open>double\<close> to an \<^verbatim>\<open>int\<close> (\<open>trunc_real\<close>) and the range
    in which it is defined (\<open>c_int_representable\<close>), a convex-combination bound.
  \<^item> \<open>Geometry\<close>: the point type \<open>xy\<close>, the macros \<open>DPI_X\<close>, \<open>DPI_Y\<close>,
    \<open>DEFAULT_SIZE_X\<close>, \<open>DEFAULT_SIZE_Y\<close>, \<open>convert_to_internal\<close> and
    \<open>get_dimensions\<close>.
  \<^item> \<open>Canvas\<close>: the OpenCV calls the source makes, modelled from the library's
    interface since OpenCV is not in the repository.  An \<open>iplimage\<close> is its header
    (size, depth, channels), whether its buffer was zero-filled, and the list of primitives
    (\<open>draw_op\<close>) drawn since; \<open>render\<close> turns it into pixels for any rasteriser
    \<open>paint\<close>, a parameter, so that what is proved holds whatever the library's
    anti-aliasing does.  The disk is a map from file names to images plus the set of
    writable names.  The checks the library makes are there too: the assertions of
    \<^verbatim>\<open>cv::line\<close> and \<^verbatim>\<open>cv::circle\<close> on thickness, radius and shift
    (\<open>cvLine_chk\<close>, \<open>cvCircle_chk\<close>, with \<open>MAX_THICKNESS = 32767\<close>) and the
    encoder lookup of \<^verbatim>\<open>imwrite\<close> behind \<^verbatim>\<open>cvSaveImage\<close>
    (\<open>cvSaveImage_chk\<close>, the extensions the build supports being a parameter).
  \<^item> \<open>Device\<close>: the object as the record \<open>cv_sim\<close> (\<^verbatim>\<open>running\<close>,
    \<^verbatim>\<open>image\<close> as an option for the nullable pointer, \<^verbatim>\<open>current_position\<close>,
    \<^verbatim>\<open>tool_width\<close>, \<^verbatim>\<open>output_filename\<close>), both constructors and one definition
    per method (\<open>move_to\<close>, \<open>cut_to\<close> with its \<^verbatim>\<open>cvLine\<close> call
    \<open>cut_stroke\<close>, \<open>start\<close> with the canvas \<open>new_canvas\<close> it allocates,
    \<open>stop\<close>, \<open>set_tool_width\<close>, \<open>get_image\<close>), each taking the object
    and returning the method's flag with the new object; \<open>stop\<close> also threads the disk
    and \<open>get_image\<close> returns the image or the OpenCV error.  Its lemmas give each
    method on each branch, and \<open>cut_path\<close>, a sequence of cuts, as a polyline.
  \<^item> \<open>Curve\<close>: \<^verbatim>\<open>curve_to\<close>: the coefficient record \<open>coeff\<close> for the array
    \<^verbatim>\<open>coeff[NUM_FACT][NUM_DIM]\<close>, \<open>curve_coeffs\<close>, the step parameter
    \<open>curve_t\<close>, the evaluation \<open>curve_iter\<close>, the \<^verbatim>\<open>for\<close> loop
    \<open>curve_loop\<close> (a \<^theory_text>\<open>function\<close> whose termination is proved by the measure
    \<open>NUM_SECTIONS_PER_CURVE + 1 - i\<close>) and \<open>curve_to\<close>.  The coefficient form is
    proved equal to the Bernstein form \<open>bezier\<close>, and the loop equal to a fold of
    \<open>cut_to\<close> over the twenty points.  The loop is also written as the C statement
    it is, \<open>curve_for\<close>, a \<open>while_option\<close> over the \<^verbatim>\<open>int\<close> counter and
    the object, proved to terminate with the counter at 21 (by
    \<open>measure_while_option_Some\<close>) and to compute what \<open>curve_loop\<close> computes.
  \<^item> \<open>Machine\<close>: the public interface as the command datatype \<open>cmd\<close>, the step
    \<open>exec_cmd\<close> on the device and the disk, runs \<open>run\<close>, the inductive set
    \<open>reachable\<close> of states some run produces from a constructed device, and the
    invariant \<open>dev_inv\<close> (width at least 1, a running device has a canvas, the canvas
    is well formed and carries only cut lines) proved for every reachable state by rule
    induction, one preservation lemma per method.
  \<^item> \<open>Plotter\<close>: the abstract specification of sections 4.1 and 4.2 of the
    specification, an exact pen plotter with error values, its run \<open>p_run\<close>, and the
    simulation \<open>sim\<close> proving that every run of the implementation refines it.
  \<^item> \<open>Faults\<close>: \<open>cut_to_x\<close>, \<open>curve_to_x\<close>, \<open>stop_x\<close> and
    \<open>get_image_x\<close>, the methods with the failures of the calls they make: an OpenCV
    assertion or encoder lookup that fails raises a \<^verbatim>\<open>cv::Exception\<close>, which
    nothing in the file catches, so it leaves the method with the object as the method had
    left it (a value \<open>Cv_exception e\<close> beside the state); a \<^verbatim>\<open>double\<close>
    converted to an \<^verbatim>\<open>int\<close> it does not fit is undefined behaviour
    (\<open>Int_overflow\<close>).  \<open>exec_cmd_x\<close> and \<open>run_x\<close> drive them and stop at
    the first fault.  Its lemmas show that on runs within the bounds \<open>cmd_bounded\<close>
    (coordinates within 21474836 inches, widths below 327.675 inches, an encoder for a
    saveable name) the fault-aware model is the fault-free one, and characterise each fault
    outside them.
  \<^item> This theory: properties that span the components: the scenarios of section 8 of
    the specification, the stop/start lifecycle of the canvas and the raster bounds of
    curves.

  \<^bold>\<open>Modelling choices.\<close>
  \<^verbatim>\<open>double\<close> and \<^verbatim>\<open>float\<close> values are reals: floating-point rounding is not
  modelled, so equalities such as ``the last curve point is \<open>p3\<close>'' hold exactly here
  and within rounding in the program.  The conversions to \<^verbatim>\<open>int\<close> the code makes
  (\<^verbatim>\<open>cvPoint\<close> arguments, \<^verbatim>\<open>(int)tool_width\<close>) are truncations towards zero
  to unbounded integers, with \<open>c_int_representable\<close> stating where the C conversion is
  defined; the theories up to \<open>Plotter\<close> let every library call succeed, and
  \<open>Faults\<close> adds the failures.  The \<^verbatim>\<open>sqrt\<close> of \<^verbatim>\<open>set_tool_width\<close> stays in its definition and a
  proved code equation evaluates it to 100.  No fuel is needed: the only loop has a fixed
  bound of 20 iterations; it is a terminating recursive function, and as a
  \<open>while_option\<close> it is proved to return.

  \<^bold>\<open>Not modelled.\<close>  The rasterisation inside \<^verbatim>\<open>cvLine\<close> and
  \<^verbatim>\<open>cvCircle\<close> (an abstract painter instead, a non-goal of the specification),
  image encoding in \<^verbatim>\<open>cvSaveImage\<close> beyond the encoder lookup, allocation failure
  of \<^verbatim>\<open>cvCreateImage\<close>, the class header and \<^verbatim>\<open>types.h\<close> (not in the repository; the
  member types are read off their uses), and the command protocol, file plumbing and
  display loop that the specification puts outside the core.

  \<^bold>\<open>What the lemmas show.\<close>  Per method (\<open>Device\<close>, \<open>Curve\<close>): the result on
  every branch, the stopped-device errors, the canvas lifecycle of \<open>start\<close> and
  \<open>stop\<close>, the thickness \<open>set_tool_width\<close> yields, the snapshot as canvas plus
  marker for any rasteriser, and \<open>curve_to\<close> as one move and twenty cuts along the
  Bernstein curve ending at \<open>p3\<close> and staying in the hull of the control points.  Over
  runs (\<open>Machine\<close>): the invariant of every reachable state, the exact failure
  condition of a call, which calls move the tool and which write the disk.  Against the
  specification (\<open>Plotter\<close>): every run of the implementation refines the abstract
  plotter, including the pixels of its canvas.  With the library's failures
  (\<open>Faults\<close>): bounded runs raise nothing and agree with the fault-free model; a cut
  raises exactly when the thickness exceeds \<open>MAX_THICKNESS\<close>; a raising curve leaves a
  prefix of its cuts done; \<^verbatim>\<open>stop\<close> raises, still running, for a name without an
  encoder.  The named collection \<open>device_defs\<close>
  holds the executable equations of every operation; the scenarios below evaluate with it.

  \<^bold>\<open>Findings.\<close>  \<^verbatim>\<open>stop\<close> with a file name of at most four characters keeps the
  canvas, with its drawing, although the specification's scenario says it is released
  (\<open>Device.stop_short_name_keeps_canvas\<close>, \<open>stop_start_lifecycle\<close>); a device
  made by the default constructor never saves its canvas
  (\<open>Machine.default_device_never_saves\<close>); the tool width has no upper bound, so the
  \<^verbatim>\<open>(int)\<close> cast overflows for widths of \<open>2^31/100\<close> inches and more
  (\<open>Device.set_tool_width_representable\<close> gives the safe range); \<^verbatim>\<open>get_image\<close>
  before the first \<^verbatim>\<open>start\<close> is an OpenCV error (\<open>Device.get_image_without_canvas\<close>);
  \<^verbatim>\<open>#undef NUM_DUM\<close> at the end of \<^verbatim>\<open>curve_to\<close> misspells \<^verbatim>\<open>NUM_DIM\<close>.
  Against the specification's claim that no exceptions are used: from a tool width of
  327.675 inches every cut on a canvas throws out of \<^verbatim>\<open>cv::line\<close>
  (\<open>Faults.wide_tool_cut_raises\<close>); \<^verbatim>\<open>stop\<close> throws, leaving the device
  running with its canvas, when no encoder matches the file name
  (\<open>Faults.stop_x_no_encoder\<close>); a throwing \<^verbatim>\<open>curve_to\<close> has already moved the
  tool and drawn part of the curve (\<open>Faults.curve_to_x_fault_prefix\<close>).

  \<^bold>\<open>Plan.\<close>  Done: every function of the source file, its invariant, the
  refinement of the specification, the loop as a \<open>while\<close> loop, and the exceptions and
  undefined conversions of the library calls with the bounds under which none occurs.
  Next, in this order: properties of traces (every saved file is a canvas some earlier
  \<^verbatim>\<open>start\<close> allocated, the segments of a session in call order); the
  floating-point error of the twenty curve evaluations (a bound on the distance between the
  computed and the exact end point); the \<^verbatim>\<open>int\<close> arguments as \<open>32 word\<close> values
  for the arithmetic OpenCV does on them.
\<close>

section \<open>Properties across the components\<close>



text \<open>C24: across a \<^verbatim>\<open>stop\<close> and the next \<^verbatim>\<open>start\<close>, a canvas is replaced by a blank
  one exactly when \<^verbatim>\<open>stop\<close> saved it (file name longer than four characters);
  otherwise the drawing of the previous session stays on the canvas.\<close>

theorem stop_start_lifecycle:
  "image s = Some img \<Longrightarrow>
   image (snd (start (fst (snd (stop s d))))) =
     (if 4 < length (output_filename s) then Some new_canvas else Some img)"
  by (simp add: stop_def start_def)

theorem stop_start_lifecycle_witness:
  "image (snd (cut_to (snd (start (CV_sim ''a.p''))) \<lparr>x = 1, y = 1\<rparr>)) =
     Some (new_canvas\<lparr>strokes := [Line (0, 0) (100, 100) (cvScalar 120 120 120) 1 CV_AA 0]\<rparr>) \<and>
   image (snd (start (fst (snd (stop (snd (cut_to (snd (start (CV_sim ''a.p''))) \<lparr>x = 1, y = 1\<rparr>))
     \<lparr>files = Map.empty, writable = (\<lambda>_. True)\<rparr>))))) =
     Some (new_canvas\<lparr>strokes := [Line (0, 0) (100, 100) (cvScalar 120 120 120) 1 CV_AA 0]\<rparr>)"
proof -
  have i: "image (snd (cut_to (snd (start (CV_sim ''a.p''))) \<lparr>x = 1, y = 1\<rparr>)) =
     Some (new_canvas\<lparr>strokes := [Line (0, 0) (100, 100) (cvScalar 120 120 120) 1 CV_AA 0]\<rparr>)"
    by (simp add: device_defs config_defs Let_def)
  have l: "length (output_filename (snd (cut_to (snd (start (CV_sim ''a.p''))) \<lparr>x = 1, y = 1\<rparr>))) = 3"
    by (simp add: CV_sim_def start_def cut_to_def Let_def split: option.split)
  show ?thesis
    using i l stop_start_lifecycle [OF i, of "\<lparr>files = Map.empty, writable = (\<lambda>_. True)\<rparr>"] by simp
qed



end
